theory Spec2Isabelle
  imports Complex_Main
begin

section \<open>Data model of the chat page (src/app/page.tsx)\<close>

text \<open>
  The page is one React component. Its state variables are the fields of the record
  \<open>app\<close> below, its handlers are functions from state to state, and an asynchronous
  handler is cut at its \<^verbatim>\<open>await\<close>: one function for the part that runs on the call and
  one for the part that runs when the promise settles.

  JavaScript numbers are modelled as \<^typ>\<open>real\<close>: sums and quotients are exact. Clock
  readings (\<^verbatim>\<open>Date.now()\<close>, \<^verbatim>\<open>new Date()\<close>) are integers of milliseconds handed to the
  handlers as arguments. A value that may be \<^verbatim>\<open>undefined\<close> is an \<open>option\<close>. The backend
  payload has the types of the chat endpoint's interface: strings, a flag, arrays of
  numbers and arrays of strings, where a per-trait array, the persona, the priority and
  the iteration may be absent. The trait of an assessment is one of the six names of
  the constant \<^verbatim>\<open>traits\<close>, the only ones the page ever stores.
\<close>

datatype msg_type = User | Ai

record message =
  m_id :: string
  m_type :: msg_type
  m_content :: "string option"
  m_timestamp :: int

text \<open>The constant array \<^verbatim>\<open>traits\<close> (lines 119-126): the only trait names ever stored.\<close>

datatype trait =
    Awareness
  | Self_control
  | Preparedness
  | Information_seeking
  | Risk_seeking
  | Reaction_to_external_events

definition traits :: "trait list" where
  "traits = [Awareness, Self_control, Preparedness, Information_seeking, Risk_seeking,
     Reaction_to_external_events]"

fun trait_name :: "trait \<Rightarrow> string" where
  "trait_name Awareness = ''awareness''"
| "trait_name Self_control = ''self_control''"
| "trait_name Preparedness = ''preparedness''"
| "trait_name Information_seeking = ''information_seeking''"
| "trait_name Risk_seeking = ''risk_seeking''"
| "trait_name Reaction_to_external_events = ''reaction_to_external_events''"

record trait_data =
  trait :: trait
  score :: "real option"
  confidence :: "real option"
  sentence :: "string option"
  rationale :: "string option"
  timestamp :: "int option"

text \<open>
  \<^verbatim>\<open>data.updated_state\<close>. The four functions stand for the fields
  \<^verbatim>\<open>${trait}_score\<close>, \<^verbatim>\<open>${trait}_confidence\<close>, \<^verbatim>\<open>${trait}_sentences\<close> and
  \<^verbatim>\<open>${trait}_rationale\<close>; \<open>None\<close> is a field that is absent.
\<close>

record updated_state =
  continue_conversation :: bool
  persona :: "string option"
  current_priority :: "string option"
  current_iteration :: "real option"
  score_field :: "trait \<Rightarrow> real list option"
  confidence_field :: "trait \<Rightarrow> real list option"
  sentences_field :: "trait \<Rightarrow> string list option"
  rationale_field :: "trait \<Rightarrow> string list option"

record chat_response =
  response :: string
  updated_state :: updated_state

record persona_response =
  p_response :: string

record chat_state =
  messages :: "message list"
  traitData :: "trait_data list"
  currentPriority :: "string option"
  currentIteration :: "real option"
  backendState :: "updated_state option"

text \<open>
  The state variables of the component (lines 62-111). The last two fields are not React
  state: \<open>pendingChat\<close> is the \<^verbatim>\<open>chatState\<close> captured by the closure of a
  \<^verbatim>\<open>handleSubmit\<close> call that is waiting for its response, \<open>pendingPersona\<close> says that a
  \<^verbatim>\<open>generatePersona\<close> call is waiting for its response.
\<close>

record app =
  userId :: "string option"
  sessionId :: "string option"
  input :: string
  isLoading :: bool
  showPersonaPopup :: bool
  personaData :: string
  isGeneratingPersona :: bool
  isTerminated :: bool
  chatState :: chat_state
  shouldContinue :: bool
  pendingChat :: "chat_state option"
  pendingPersona :: bool

definition initial_chatState :: chat_state where
  "initial_chatState =
     \<lparr>messages = [], traitData = [], currentPriority = None, currentIteration = None,
      backendState = None\<rparr>"

definition initial_app :: app where
  "initial_app =
     \<lparr>userId = None, sessionId = None, input = [], isLoading = False,
      showPersonaPopup = False, personaData = [], isGeneratingPersona = False,
      isTerminated = False, chatState = initial_chatState, shouldContinue = True,
      pendingChat = None, pendingPersona = False\<rparr>"

section \<open>JavaScript primitives used by the handlers\<close>

text \<open>\<^verbatim>\<open>xs[i]\<close>: \<^verbatim>\<open>undefined\<close> beyond the end of the array.\<close>

definition at_index :: "'a list \<Rightarrow> nat \<Rightarrow> 'a option" where
  "at_index xs i = (if i < length xs then Some (xs ! i) else None)"

text \<open>\<^verbatim>\<open>field || []\<close> on an array field that may be absent.\<close>

definition or_empty :: "'a list option \<Rightarrow> 'a list" where
  "or_empty a = (case a of None \<Rightarrow> [] | Some xs \<Rightarrow> xs)"

text \<open>Truthiness of a string that may be \<^verbatim>\<open>undefined\<close>: defined and not empty.\<close>

definition truthy_string :: "string option \<Rightarrow> bool" where
  "truthy_string s = (case s of None \<Rightarrow> False | Some v \<Rightarrow> v \<noteq> [])"

text \<open>
  \<^verbatim>\<open>String.prototype.trim\<close>. A string is the list of the bytes of its UTF-8 encoding, so
  a character beyond ASCII is a sequence of two or three bytes. \<open>white_space\<close> lists the
  characters that \<^verbatim>\<open>trim\<close> removes, the white space and line terminators of ECMAScript:
  U+0009 to U+000D, U+0020, U+00A0, U+1680, U+2000 to U+200A, U+2028, U+2029, U+202F,
  U+205F, U+3000 and U+FEFF. No sequence of the list starts or ends another one, and in
  UTF-8 none of them can start or end inside another character.
\<close>

definition white_space :: "string list" where
  "white_space =
     [[CHR 0x09], [CHR 0x0A], [CHR 0x0B], [CHR 0x0C], [CHR 0x0D], [CHR 0x20],
      [CHR 0xC2, CHR 0xA0],
      [CHR 0xE1, CHR 0x9A, CHR 0x80],
      [CHR 0xE2, CHR 0x80, CHR 0x80], [CHR 0xE2, CHR 0x80, CHR 0x81],
      [CHR 0xE2, CHR 0x80, CHR 0x82], [CHR 0xE2, CHR 0x80, CHR 0x83],
      [CHR 0xE2, CHR 0x80, CHR 0x84], [CHR 0xE2, CHR 0x80, CHR 0x85],
      [CHR 0xE2, CHR 0x80, CHR 0x86], [CHR 0xE2, CHR 0x80, CHR 0x87],
      [CHR 0xE2, CHR 0x80, CHR 0x88], [CHR 0xE2, CHR 0x80, CHR 0x89],
      [CHR 0xE2, CHR 0x80, CHR 0x8A],
      [CHR 0xE2, CHR 0x80, CHR 0xA8], [CHR 0xE2, CHR 0x80, CHR 0xA9],
      [CHR 0xE2, CHR 0x80, CHR 0xAF],
      [CHR 0xE2, CHR 0x81, CHR 0x9F],
      [CHR 0xE3, CHR 0x80, CHR 0x80],
      [CHR 0xEF, CHR 0xBB, CHR 0xBF]]"

text \<open>The first sequence of \<open>ws\<close> that the string starts with.\<close>

definition leading :: "string list \<Rightarrow> string \<Rightarrow> string option" where
  "leading ws s = find (\<lambda>w. w \<noteq> [] \<and> take (length w) s = w) ws"

function strip_leading :: "string list \<Rightarrow> string \<Rightarrow> string" where
  "strip_leading ws s =
     (case leading ws s of
        None \<Rightarrow> s
      | Some w \<Rightarrow> strip_leading ws (drop (length w) s))"
  by pat_completeness auto
termination
proof (relation "measure (\<lambda>(ws, s). length s)")
  show "wf (measure (\<lambda>(ws, s). length s))" by simp
next
  fix ws :: "string list" and s w :: string
  assume "leading ws s = Some w"
  then have w: "w \<noteq> []" and t: "take (length w) s = w"
    by (auto simp: leading_def find_Some_iff)
  have "length (take (length w) s) = min (length w) (length s)" by simp
  with t have "length w \<le> length s" by simp
  with w show "((ws, drop (length w) s), (ws, s)) \<in> measure (\<lambda>(ws, s). length s)"
    by (cases w) auto
qed

declare strip_leading.simps [simp del]

definition trim :: "string \<Rightarrow> string" where
  "trim s = rev (strip_leading (map rev white_space) (rev (strip_leading white_space s)))"

text \<open>\<^verbatim>\<open>Number.prototype.toString\<close> on an integer.\<close>

fun digits :: "nat \<Rightarrow> string" where
  "digits n =
     (if n < 10 then [''0123456789'' ! n]
      else digits (n div 10) @ [''0123456789'' ! (n mod 10)])"

definition toString :: "int \<Rightarrow> string" where
  "toString n = (if n < 0 then CHR ''-'' # digits (nat (- n)) else digits (nat n))"

section \<open>Score aggregation: getLatestTraitScores (lines 145-177)\<close>

record aggregate =
  totalScore :: real
  totalConfidence :: real
  count :: nat

record trait_summary =
  s_trait :: trait
  s_score :: real
  s_confidence :: real

text \<open>
  \<^verbatim>\<open>traitAggregates\<close> is an object keyed by trait name; \<^verbatim>\<open>Object.entries\<close> lists its keys
  in the order of their insertion, so it is an association list that grows at its end.
  \<open>aggregate_step\<close> is the body of the \<^verbatim>\<open>forEach\<close> callback.
\<close>

definition bump :: "real \<Rightarrow> real \<Rightarrow> aggregate \<Rightarrow> aggregate" where
  "bump sc cf a =
     \<lparr>totalScore = totalScore a + sc, totalConfidence = totalConfidence a + cf,
      count = count a + 1\<rparr>"

definition aggregate_step ::
  "(trait \<times> aggregate) list \<Rightarrow> trait_data \<Rightarrow> (trait \<times> aggregate) list" where
  "aggregate_step traitAggregates d =
     (case score d of
        None \<Rightarrow> traitAggregates
      | Some sc \<Rightarrow>
          (let created =
                 (if map_of traitAggregates (trait d) = None
                  then traitAggregates @
                         [(trait d, \<lparr>totalScore = 0, totalConfidence = 0, count = 0\<rparr>)]
                  else traitAggregates);
               cf = (case confidence d of None \<Rightarrow> 0 | Some c \<Rightarrow> c)
           in map (\<lambda>(k, a). if k = trait d then (k, bump sc cf a) else (k, a)) created))"

definition getLatestTraitScores :: "chat_state \<Rightarrow> trait_summary list" where
  "getLatestTraitScores cs =
     map (\<lambda>(t, a). \<lparr>s_trait = t, s_score = totalScore a / real (count a),
                     s_confidence = totalConfidence a / real (count a)\<rparr>)
       (foldl aggregate_step [] (traitData cs))"

section \<open>Extraction of new assessments (handleSubmit, lines 316-369)\<close>

text \<open>The record pushed at index \<open>i\<close> (lines 356-365).\<close>

definition new_record ::
  "trait \<Rightarrow> real list \<Rightarrow> real list \<Rightarrow> string list \<Rightarrow> string list \<Rightarrow> int \<Rightarrow> nat \<Rightarrow> nat
     \<Rightarrow> trait_data" where
  "new_record tr scores confidences sentences rationales currentTime len i =
     \<lparr>trait = tr, score = at_index scores i, confidence = at_index confidences i,
      sentence = at_index sentences i, rationale = at_index rationales i,
      timestamp = Some (currentTime + int len)\<rparr>"

text \<open>The test of line 355.\<close>

definition has_data :: "real list \<Rightarrow> string list \<Rightarrow> nat \<Rightarrow> bool" where
  "has_data scores sentences i =
     (truthy_string (at_index sentences i) \<or> at_index scores i \<noteq> None)"

text \<open>The \<^verbatim>\<open>for\<close> loop of lines 353-367, from index \<open>i\<close>.\<close>

function for_loop ::
  "trait \<Rightarrow> real list \<Rightarrow> real list \<Rightarrow> string list \<Rightarrow> string list \<Rightarrow> int \<Rightarrow> nat \<Rightarrow> nat
     \<Rightarrow> trait_data list \<Rightarrow> trait_data list" where
  "for_loop tr scores confidences sentences rationales currentTime maxLength i newTraitData =
     (if i < maxLength then
        for_loop tr scores confidences sentences rationales currentTime maxLength (Suc i)
          (if has_data scores sentences i
           then newTraitData @
                  [new_record tr scores confidences sentences rationales currentTime
                     (length newTraitData) i]
           else newTraitData)
      else newTraitData)"
  by pat_completeness auto
termination
  by (relation "measure (\<lambda>(tr, sc, cf, se, ra, ct, maxLength, i, acc). maxLength - i)") auto

declare for_loop.simps [simp del]

definition existingCount :: "trait_data list \<Rightarrow> trait \<Rightarrow> nat" where
  "existingCount tds tr = length (filter (\<lambda>t. trait t = tr) tds)"

definition maxLength :: "updated_state \<Rightarrow> trait \<Rightarrow> nat" where
  "maxLength us tr =
     max (max (max (length (or_empty (score_field us tr)))
                   (length (or_empty (sentences_field us tr))))
              (length (or_empty (rationale_field us tr))))
         (length (or_empty (confidence_field us tr)))"

text \<open>The test of lines 340-344.\<close>

definition has_new_data :: "updated_state \<Rightarrow> trait_data list \<Rightarrow> trait \<Rightarrow> bool" where
  "has_new_data us tds tr =
     (length (or_empty (score_field us tr)) > existingCount tds tr
      \<or> length (or_empty (sentences_field us tr)) > existingCount tds tr
      \<or> length (or_empty (rationale_field us tr)) > existingCount tds tr)"

text \<open>
  The callback of \<^verbatim>\<open>traits.forEach\<close> (lines 321-369). \<open>tds\<close> is
  \<^verbatim>\<open>chatState.traitData\<close> of the closure, \<open>newTraitData\<close> the array being filled.
\<close>

definition process_trait ::
  "updated_state \<Rightarrow> trait_data list \<Rightarrow> int \<Rightarrow> trait_data list \<Rightarrow> trait \<Rightarrow> trait_data list" where
  "process_trait us tds currentTime newTraitData tr =
     (if has_new_data us tds tr then
        for_loop tr (or_empty (score_field us tr)) (or_empty (confidence_field us tr))
          (or_empty (sentences_field us tr)) (or_empty (rationale_field us tr))
          currentTime (maxLength us tr) (existingCount tds tr) newTraitData
      else newTraitData)"

definition extract_new :: "updated_state \<Rightarrow> trait_data list \<Rightarrow> int \<Rightarrow> trait_data list" where
  "extract_new us tds currentTime = foldl (process_trait us tds currentTime) [] traits"

section \<open>Network calls\<close>

text \<open>
  What \<^verbatim>\<open>await fetch(...)\<close> followed by \<^verbatim>\<open>await response.json()\<close> can give: the fetch
  rejects (transport error), or it resolves with a status and a body that parses or does
  not. The strings are the text \<^verbatim>\<open>error instanceof Error ? error.message : String(error)\<close>
  of the value thrown.
\<close>

datatype 'a body = Malformed string | Parsed 'a

datatype 'a fetch_result = Rejected string | Responded nat "'a body"

text \<open>\<^verbatim>\<open>response.ok\<close>: the status is in the range 200-299.\<close>

definition ok :: "nat \<Rightarrow> bool" where
  "ok status = (200 \<le> status \<and> status \<le> 299)"

text \<open>
  The value reached at \<^verbatim>\<open>const data = await response.json()\<close>, or the text of the error
  thrown before (lines 269-286 and 206-222).
\<close>

definition fetch_outcome :: "'a fetch_result \<Rightarrow> string + 'a" where
  "fetch_outcome r =
     (case r of
        Rejected msg \<Rightarrow> Inl msg
      | Responded status b \<Rightarrow>
          if \<not> ok status then Inl (''HTTP error! status: '' @ toString (int status))
          else (case b of Malformed msg \<Rightarrow> Inl msg | Parsed data \<Rightarrow> Inr data))"

record chat_request =
  rq_user_id :: "string option"
  rq_session_id :: "string option"
  rq_message :: string
  rq_state :: "updated_state option"

record persona_request =
  pq_state :: updated_state
  pq_user_id :: "string option"
  pq_session_id :: "string option"

text \<open>What a handler does to the outside on its call.\<close>

datatype effect = NoEffect | Alert string | PostChat chat_request | PostPersona persona_request

section \<open>handleSubmit (lines 242-403)\<close>

text \<open>
  The part before \<^verbatim>\<open>await fetch\<close>. \<open>idNow\<close> is \<^verbatim>\<open>Date.now()\<close>, \<open>msgTime\<close> is
  \<^verbatim>\<open>new Date()\<close>.
\<close>

definition handleSubmit_call :: "int \<Rightarrow> int \<Rightarrow> app \<Rightarrow> app \<times> effect" where
  "handleSubmit_call idNow msgTime s =
     (if trim (input s) = [] \<or> isLoading s then (s, NoEffect)
      else
        (let userMessage =
               \<lparr>m_id = toString idNow, m_type = User, m_content = Some (trim (input s)),
                m_timestamp = msgTime\<rparr>
         in (s\<lparr>chatState :=
                  (chatState s)\<lparr>messages := messages (chatState s) @ [userMessage]\<rparr>,
               input := [],
               isLoading := True,
               pendingChat := Some (chatState s)\<rparr>,
             PostChat \<lparr>rq_user_id = userId s, rq_session_id = sessionId s,
                       rq_message = trim (input s),
                       rq_state = backendState (chatState s)\<rparr>)))"

text \<open>The \<^verbatim>\<open>catch\<close> block (lines 383-402).\<close>

definition error_content :: "string \<Rightarrow> string" where
  "error_content msg =
     ''I apologize, but I'' @ [CHR 0x27] @
     ''m having trouble connecting right now. Please try again.'' @ [CHR 0x0A] @
     ''Error: '' @ msg"

definition handleSubmit_catch :: "int \<Rightarrow> int \<Rightarrow> string \<Rightarrow> app \<Rightarrow> app" where
  "handleSubmit_catch idNow msgTime msg s =
     (let errorMessage =
            \<lparr>m_id = toString (idNow + 1), m_type = Ai, m_content = Some (error_content msg),
             m_timestamp = msgTime\<rparr>
      in s\<lparr>chatState :=
              (chatState s)\<lparr>messages := messages (chatState s) @ [errorMessage]\<rparr>,
           isLoading := False\<rparr>)"

text \<open>
  The \<^verbatim>\<open>try\<close> block after the response has been parsed (lines 286-382). \<open>closure\<close> is
  the \<^verbatim>\<open>chatState\<close> the handler closed over; the updates of \<^verbatim>\<open>setChatState\<close> read the
  current state \<^verbatim>\<open>prev\<close>.
\<close>

definition handleSubmit_then ::
  "chat_state \<Rightarrow> int \<Rightarrow> int \<Rightarrow> int \<Rightarrow> chat_response \<Rightarrow> app \<Rightarrow> app" where
  "handleSubmit_then closure idNow msgTime currentTime data s =
     (let s1 = (if response data = ''terminate'' then s\<lparr>isTerminated := True\<rparr> else s);
          aiMessage =
            \<lparr>m_id = toString (idNow + 1), m_type = Ai, m_content = Some (response data),
             m_timestamp = msgTime\<rparr>;
          s2 = (if \<not> continue_conversation (updated_state data)
                then s1\<lparr>shouldContinue := False\<rparr> else s1);
          aiMessage2 = (if \<not> continue_conversation (updated_state data)
                then aiMessage\<lparr>m_content := persona (updated_state data)\<rparr> else aiMessage);
          newTraitData = extract_new (updated_state data) (traitData closure) currentTime
      in s2\<lparr>chatState :=
               \<lparr>messages = messages (chatState s2) @ [aiMessage2],
                traitData = traitData (chatState s2) @ newTraitData,
                currentPriority = current_priority (updated_state data),
                currentIteration = current_iteration (updated_state data),
                backendState = Some (updated_state data)\<rparr>,
            isLoading := False\<rparr>)"

definition handleSubmit_resolved ::
  "chat_state \<Rightarrow> int \<Rightarrow> int \<Rightarrow> int \<Rightarrow> chat_response fetch_result \<Rightarrow> app \<Rightarrow> app" where
  "handleSubmit_resolved closure idNow msgTime currentTime r s =
     (case fetch_outcome r of
        Inl msg \<Rightarrow> handleSubmit_catch idNow msgTime msg s
      | Inr data \<Rightarrow> handleSubmit_then closure idNow msgTime currentTime data s)"

text \<open>
  One reconciliation: a chat response that parsed, processed by a handler whose closure
  holds the chat state it is applied to (no other chat call is in flight).
\<close>

definition reconcile :: "int \<Rightarrow> int \<Rightarrow> int \<Rightarrow> chat_response \<Rightarrow> app \<Rightarrow> app" where
  "reconcile idNow msgTime currentTime data s =
     handleSubmit_resolved (chatState s) idNow msgTime currentTime
       (Responded 200 (Parsed data)) s"

section \<open>generatePersona (lines 196-235)\<close>

text \<open>
  The call up to \<^verbatim>\<open>await fetch\<close>, and the rest of the handler once the call has settled.
  The \<^verbatim>\<open>catch\<close> block only logs and alerts, so a failed call leaves the state as it is,
  but for \<^verbatim>\<open>isGeneratingPersona\<close>, which the \<^verbatim>\<open>finally\<close> block clears on both paths.
\<close>

definition generatePersona_call :: "app \<Rightarrow> app \<times> effect" where
  "generatePersona_call s =
     (case backendState (chatState s) of
        None \<Rightarrow>
          (s, Alert ''No assessment data available. Please have a conversation first.'')
      | Some st \<Rightarrow>
          (s\<lparr>isGeneratingPersona := True, pendingPersona := True\<rparr>,
           PostPersona \<lparr>pq_state = st, pq_user_id = userId s, pq_session_id = sessionId s\<rparr>))"

definition generatePersona_resolved :: "persona_response fetch_result \<Rightarrow> app \<Rightarrow> app" where
  "generatePersona_resolved r s =
     (case fetch_outcome r of
        Inl msg \<Rightarrow> s\<lparr>isGeneratingPersona := False\<rparr>
      | Inr data \<Rightarrow>
          s\<lparr>personaData := p_response data, isTerminated := True, showPersonaPopup := True,
            isGeneratingPersona := False\<rparr>)"

section \<open>What the page renders (lines 667-711)\<close>

definition inputFormRendered :: "app \<Rightarrow> bool" where
  "inputFormRendered s = (\<not> isTerminated s)"

definition inputDisabled :: "app \<Rightarrow> bool" where
  "inputDisabled s = (isLoading s \<or> \<not> shouldContinue s \<or> isTerminated s)"

definition sendDisabled :: "app \<Rightarrow> bool" where
  "sendDisabled s = (isLoading s \<or> trim (input s) = [] \<or> \<not> shouldContinue s)"

definition personaButtonRendered :: "app \<Rightarrow> bool" where
  "personaButtonRendered s = (backendState (chatState s) \<noteq> None)"

definition personaButtonDisabled :: "app \<Rightarrow> bool" where
  "personaButtonDisabled s =
     (isGeneratingPersona s \<or> length (getLatestTraitScores (chatState s)) < 1)"

section \<open>The page as a transition system\<close>

text \<open>
  A user event reaches its handler only through a control that is rendered and enabled:
  the text field for typing, the form with its send button for submitting (a form whose
  submit button is disabled is not submitted by the Enter key either), the persona
  button for generating the persona. A settled promise reaches the rest of its handler
  only if the call was made. The page is rendered anew after every event, so a handler
  closes over the state its event finds.
\<close>

datatype event =
    SessionStarted "string option" "string option"
  | TypeInput string
  | SubmitForm int int
  | ChatSettled int int int "chat_response fetch_result"
  | ClickPersona
  | PersonaSettled "persona_response fetch_result"
  | ClosePopup

fun dispatch :: "event \<Rightarrow> app \<Rightarrow> app" where
  "dispatch (SessionStarted uid sid) s = s\<lparr>userId := uid, sessionId := sid\<rparr>"
| "dispatch (TypeInput v) s =
     (if inputFormRendered s \<and> \<not> inputDisabled s then s\<lparr>input := v\<rparr> else s)"
| "dispatch (SubmitForm idNow msgTime) s =
     (if inputFormRendered s \<and> \<not> sendDisabled s
      then fst (handleSubmit_call idNow msgTime s) else s)"
| "dispatch (ChatSettled idNow msgTime currentTime r) s =
     (case pendingChat s of
        None \<Rightarrow> s
      | Some closure \<Rightarrow>
          (handleSubmit_resolved closure idNow msgTime currentTime r s)\<lparr>pendingChat := None\<rparr>)"
| "dispatch ClickPersona s =
     (if personaButtonRendered s \<and> \<not> personaButtonDisabled s
      then fst (generatePersona_call s) else s)"
| "dispatch (PersonaSettled r) s =
     (if pendingPersona s then (generatePersona_resolved r s)\<lparr>pendingPersona := False\<rparr>
      else s)"
| "dispatch ClosePopup s = s\<lparr>showPersonaPopup := False\<rparr>"

fun run :: "event list \<Rightarrow> app \<Rightarrow> app" where
  "run [] s = s"
| "run (e # es) s = run es (dispatch e s)"

section \<open>Vocabulary of the properties\<close>

text \<open>A record without its synthetic time stamp.\<close>

definition strip :: "trait_data \<Rightarrow> trait_data" where
  "strip d = d\<lparr>timestamp := None\<rparr>"

text \<open>What index \<open>j\<close> of the four arrays of trait \<open>tr\<close> holds, as a record.\<close>

definition materialized :: "updated_state \<Rightarrow> trait \<Rightarrow> nat \<Rightarrow> trait_data" where
  "materialized us tr j =
     \<lparr>trait = tr, score = at_index (or_empty (score_field us tr)) j,
      confidence = at_index (or_empty (confidence_field us tr)) j,
      sentence = at_index (or_empty (sentences_field us tr)) j,
      rationale = at_index (or_empty (rationale_field us tr)) j,
      timestamp = None\<rparr>"

text \<open>The indices of trait \<open>tr\<close> for which one reconciliation pushes a record.\<close>

definition new_indices :: "updated_state \<Rightarrow> trait_data list \<Rightarrow> trait \<Rightarrow> nat list" where
  "new_indices us tds tr =
     (if has_new_data us tds tr
      then filter (has_data (or_empty (score_field us tr)) (or_empty (sentences_field us tr)))
             [existingCount tds tr..<maxLength us tr]
      else [])"

text \<open>
  A response whose only array is \<^verbatim>\<open>awareness_sentences = ["", "saves monthly"]\<close>: index 0
  has neither a sentence nor a score.
\<close>

definition gap_response :: chat_response where
  "gap_response =
     \<lparr>response = ''Tell me more.'',
      updated_state =
        \<lparr>continue_conversation = True, persona = None, current_priority = None,
         current_iteration = None, score_field = (\<lambda>t. None),
         confidence_field = (\<lambda>t. None),
         sentences_field = (\<lambda>t. None)(Awareness := Some [[], ''saves monthly'']),
         rationale_field = (\<lambda>t. None)\<rparr>\<rparr>"

definition gap_record :: "int \<Rightarrow> trait_data" where
  "gap_record ts =
     \<lparr>trait = Awareness, score = None, confidence = None,
      sentence = Some ''saves monthly'', rationale = None, timestamp = Some ts\<rparr>"

text \<open>
  The longest arrays of a trait among the chat responses delivered by a list of events.
\<close>

fun longest_seen :: "trait \<Rightarrow> event list \<Rightarrow> nat" where
  "longest_seen t [] = 0"
| "longest_seen t (ChatSettled idNow msgTime currentTime r # es) =
     (case fetch_outcome r of
        Inl msg \<Rightarrow> longest_seen t es
      | Inr data \<Rightarrow> max (maxLength (updated_state data) t) (longest_seen t es))"
| "longest_seen t (e # es) = longest_seen t es"

text \<open>
  The closure of a pending \<^verbatim>\<open>handleSubmit\<close> call holds the assessments of the current
  state: only a settled chat call changes them, and at most one is pending.
\<close>

definition closure_current :: "app \<Rightarrow> bool" where
  "closure_current s =
     (case pendingChat s of None \<Rightarrow> True
      | Some closure \<Rightarrow> traitData closure = traitData (chatState s))"

text \<open>Responses that carry arrays for the trait awareness only.\<close>

definition awareness_arrays ::
  "real list \<Rightarrow> real list \<Rightarrow> string list \<Rightarrow> string list \<Rightarrow> chat_response" where
  "awareness_arrays sc cf se ra =
     \<lparr>response = ''Tell me more.'',
      updated_state =
        \<lparr>continue_conversation = True, persona = None,
         current_priority = Some ''awareness'', current_iteration = Some 1,
         score_field = (\<lambda>t. Some [])(Awareness := Some sc),
         confidence_field = (\<lambda>t. Some [])(Awareness := Some cf),
         sentences_field = (\<lambda>t. Some [])(Awareness := Some se),
         rationale_field = (\<lambda>t. Some [])(Awareness := Some ra)\<rparr>\<rparr>"

definition one_assessment :: chat_response where
  "one_assessment = awareness_arrays [3] [7] [''tracks spending''] [''mentions a budget'']"

definition three_assessments :: chat_response where
  "three_assessments =
     awareness_arrays [3, 4, 5] [7, 8, 9]
       [''tracks spending'', ''compares prices'', ''reads statements'']
       [''mentions a budget'', ''names two shops'', ''checks monthly'']"

text \<open>
  A session of two chat turns in which the second response carries shorter arrays than
  the first.
\<close>

definition shrinking_session :: "event list" where
  "shrinking_session =
     [TypeInput ''Hi'', SubmitForm 100 100,
      ChatSettled 200 200 200 (Responded 200 (Parsed three_assessments)),
      TypeInput ''I save a little'', SubmitForm 300 300,
      ChatSettled 400 400 400 (Responded 200 (Parsed one_assessment))]"

text \<open>A response with one of its array fields replaced, and a state with its blob replaced.\<close>

definition with_scores :: "trait \<Rightarrow> real list option \<Rightarrow> chat_response \<Rightarrow> chat_response" where
  "with_scores t v d =
     d\<lparr>updated_state := (updated_state d)\<lparr>score_field := (score_field (updated_state d))(t := v)\<rparr>\<rparr>"

definition with_confidences :: "trait \<Rightarrow> real list option \<Rightarrow> chat_response \<Rightarrow> chat_response" where
  "with_confidences t v d =
     d\<lparr>updated_state :=
         (updated_state d)\<lparr>confidence_field := (confidence_field (updated_state d))(t := v)\<rparr>\<rparr>"

definition with_sentences :: "trait \<Rightarrow> string list option \<Rightarrow> chat_response \<Rightarrow> chat_response" where
  "with_sentences t v d =
     d\<lparr>updated_state :=
         (updated_state d)\<lparr>sentences_field := (sentences_field (updated_state d))(t := v)\<rparr>\<rparr>"

definition with_rationales :: "trait \<Rightarrow> string list option \<Rightarrow> chat_response \<Rightarrow> chat_response" where
  "with_rationales t v d =
     d\<lparr>updated_state :=
         (updated_state d)\<lparr>rationale_field := (rationale_field (updated_state d))(t := v)\<rparr>\<rparr>"

definition with_blob :: "updated_state \<Rightarrow> app \<Rightarrow> app" where
  "with_blob us s = s\<lparr>chatState := (chatState s)\<lparr>backendState := Some us\<rparr>\<rparr>"

text \<open>Two payloads whose arrays are equal once an absent array is read as the empty one.\<close>

definition same_arrays :: "updated_state \<Rightarrow> updated_state \<Rightarrow> bool" where
  "same_arrays us us' =
     (list_all (\<lambda>t. or_empty (score_field us t) = or_empty (score_field us' t)
        \<and> or_empty (confidence_field us t) = or_empty (confidence_field us' t)
        \<and> or_empty (sentences_field us t) = or_empty (sentences_field us' t)
        \<and> or_empty (rationale_field us t) = or_empty (rationale_field us' t)) traits)"

text \<open>
  The assessments of a trait that have a score, and the totals the aggregation holds for
  them.
\<close>

definition scored :: "trait \<Rightarrow> trait_data list \<Rightarrow> trait_data list" where
  "scored t tds = filter (\<lambda>d. trait d = t \<and> score d \<noteq> None) tds"

definition score_or_0 :: "trait_data \<Rightarrow> real" where
  "score_or_0 d = (case score d of None \<Rightarrow> 0 | Some x \<Rightarrow> x)"

definition confidence_or_0 :: "trait_data \<Rightarrow> real" where
  "confidence_or_0 d = (case confidence d of None \<Rightarrow> 0 | Some x \<Rightarrow> x)"

definition aggregate_of :: "trait \<Rightarrow> trait_data list \<Rightarrow> aggregate" where
  "aggregate_of t tds =
     \<lparr>totalScore = sum_list (map score_or_0 (scored t tds)),
      totalConfidence = sum_list (map confidence_or_0 (scored t tds)),
      count = length (scored t tds)\<rparr>"

definition update_key :: "trait \<Rightarrow> (aggregate \<Rightarrow> aggregate) \<Rightarrow> (trait \<times> aggregate) list \<Rightarrow> (trait \<times> aggregate) list" where
  "update_key k f xs = map (\<lambda>(k', a). if k' = k then (k', f a) else (k', a)) xs"

definition represents :: "(trait \<times> aggregate) list \<Rightarrow> trait_data list \<Rightarrow> bool" where
  "represents aggs tds =
     (distinct (map fst aggs) \<and>
      (\<forall>t. map_of aggs t = (if scored t tds = [] then None else Some (aggregate_of t tds))))"

text \<open>The messages the user submitted, and the two marks that close the input.\<close>

definition user_messages :: "app \<Rightarrow> message list" where
  "user_messages s = filter (\<lambda>m. m_type m = User) (messages (chatState s))"

definition input_closed :: "app \<Rightarrow> bool" where
  "input_closed s = (isTerminated s \<or> \<not> shouldContinue s)"

text \<open>A persona call is pending exactly while \<^verbatim>\<open>isGeneratingPersona\<close> is set.\<close>

definition persona_in_sync :: "app \<Rightarrow> bool" where
  "persona_in_sync s = (pendingPersona s = isGeneratingPersona s)"

text \<open>A last response of the backend, and a persona response.\<close>

definition final_response :: chat_response where
  "final_response =
     \<lparr>response = ''Thank you.'',
      updated_state =
        \<lparr>continue_conversation = False, persona = Some ''A careful saver.'',
         current_priority = None, current_iteration = Some 4,
         score_field = (\<lambda>t. Some []), confidence_field = (\<lambda>t. Some []),
         sentences_field = (\<lambda>t. Some []), rationale_field = (\<lambda>t. Some [])\<rparr>\<rparr>"

definition terminate_response :: chat_response where
  "terminate_response =
     \<lparr>response = ''terminate'',
      updated_state =
        \<lparr>continue_conversation = True, persona = None,
         current_priority = None, current_iteration = None,
         score_field = (\<lambda>t. None), confidence_field = (\<lambda>t. None),
         sentences_field = (\<lambda>t. None), rationale_field = (\<lambda>t. None)\<rparr>\<rparr>"

definition two_scores :: "trait_data list" where
  "two_scores =
     [\<lparr>trait = Awareness, score = Some 3, confidence = None, sentence = None,
       rationale = None, timestamp = None\<rparr>,
      \<lparr>trait = Awareness, score = Some 5, confidence = None, sentence = None,
       rationale = None, timestamp = None\<rparr>]"

text \<open>The number a decimal text denotes.\<close>

definition digit_value :: "char \<Rightarrow> nat" where
  "digit_value c = of_char c - 48"

definition decimal_value :: "string \<Rightarrow> nat" where
  "decimal_value s = foldl (\<lambda>a c. 10 * a + digit_value c) 0 s"

text \<open>The fixed text of line 390, which the text of the error follows.\<close>

definition apology :: string where
  "apology =
     ''I apologize, but I'' @ [CHR 0x27] @
     ''m having trouble connecting right now. Please try again.'' @ [CHR 0x0A] @
     ''Error: ''"

text \<open>The initial page with a message typed, and a session that ends with a click on the
  persona button.\<close>

definition typed_hi :: app where
  "typed_hi = initial_app\<lparr>input := '' Hi ''\<rparr>"

definition persona_session :: "event list" where
  "persona_session =
     [TypeInput ''Hi'', SubmitForm 100 100,
      ChatSettled 200 200 200 (Responded 200 (Parsed one_assessment)),
      ClickPersona]"



section \<open>The extraction loop\<close>

lemma strip_new_record:
  "strip (new_record tr sc cf se ra ct len j) = strip (new_record tr sc cf se ra ct 0 j)"
  by (simp add: strip_def new_record_def)

lemma for_loop_strip:
  "map strip (for_loop tr sc cf se ra ct m i acc) =
     map strip acc @
       map (\<lambda>j. strip (new_record tr sc cf se ra ct 0 j)) (filter (has_data sc se) [i..<m])"
proof (induction tr sc cf se ra ct m i acc rule: for_loop.induct)
  case (1 tr sc cf se ra ct m i acc)
  show ?case
  proof (cases "i < m")
    case True
    then have u: "[i..<m] = i # [Suc i..<m]" by (simp add: upt_conv_Cons)
    show ?thesis
    proof (cases "has_data sc se i")
      case h: True
      from 1 [OF True] h True show ?thesis
        by (subst for_loop.simps)
           (simp add: u strip_new_record [of _ _ _ _ _ _ "length acc"])
    next
      case h: False
      from 1 [OF True] h True show ?thesis
        by (subst for_loop.simps) (simp add: u)
    qed
  next
    case False
    then show ?thesis by (subst for_loop.simps) simp
  qed
qed

lemma process_trait_strip:
  "map strip (process_trait us tds ct acc tr) =
     map strip acc @ map (materialized us tr) (new_indices us tds tr)"
  by (simp add: process_trait_def new_indices_def for_loop_strip materialized_def
        strip_def new_record_def)

lemma foldl_process_trait_strip:
  "map strip (foldl (process_trait us tds ct) acc trs) =
     map strip acc @ concat (map (\<lambda>tr. map (materialized us tr) (new_indices us tds tr)) trs)"
  by (induction trs arbitrary: acc) (simp_all add: process_trait_strip)

lemma filter_strip:
  "map strip (filter (\<lambda>d. trait d = t) xs) = filter (\<lambda>d. trait d = t) (map strip xs)"
  by (induction xs) (simp_all add: strip_def)

lemma filter_materialized:
  "filter (\<lambda>d. trait d = t) (map (materialized us tr) js) =
     (if tr = t then map (materialized us tr) js else [])"
  by (induction js) (simp_all add: materialized_def)

lemma extract_new_trait:
  "map strip (filter (\<lambda>d. trait d = t) (extract_new us tds ct)) =
     map (materialized us t) (new_indices us tds t)"
  unfolding filter_strip extract_new_def foldl_process_trait_strip traits_def
  by (cases t) (simp_all add: filter_materialized)

lemma existingCount_extract_new:
  "existingCount (extract_new us tds ct) t = length (new_indices us tds t)"
proof -
  have "existingCount (extract_new us tds ct) t =
          length (map strip (filter (\<lambda>d. trait d = t) (extract_new us tds ct)))"
    by (simp add: existingCount_def)
  then show ?thesis by (simp only: extract_new_trait length_map)
qed

lemma existingCount_append:
  "existingCount (xs @ ys) t = existingCount xs t + existingCount ys t"
  by (simp add: existingCount_def)

lemma length_new_indices:
  "length (new_indices us tds t) \<le> maxLength us t - existingCount tds t"
proof -
  have "length (filter P [a..<b]) \<le> b - a" for P a b
    using length_filter_le [of P "[a..<b]"] by simp
  then show ?thesis by (simp add: new_indices_def)
qed

lemma new_indices_full:
  assumes "length (or_empty (score_field us t)) = maxLength us t"
    and "existingCount tds t \<le> maxLength us t"
  shows "new_indices us tds t = [existingCount tds t..<maxLength us t]"
proof (cases "existingCount tds t < maxLength us t")
  case True
  with assms have "has_new_data us tds t" by (simp add: has_new_data_def)
  moreover have
    "filter (has_data (or_empty (score_field us t)) (or_empty (sentences_field us t)))
       [existingCount tds t..<maxLength us t] = [existingCount tds t..<maxLength us t]"
    using assms by (simp add: has_data_def at_index_def)
  ultimately show ?thesis by (simp add: new_indices_def)
next
  case False
  then show ?thesis by (simp add: new_indices_def)
qed

section \<open>One reconciliation\<close>

lemma fetch_outcome_Parsed: "ok st \<Longrightarrow> fetch_outcome (Responded st (Parsed d)) = Inr d"
  by (simp add: fetch_outcome_def)

lemma ok_200: "ok 200"
  by (simp add: ok_def)

lemma traitData_handleSubmit_then:
  "traitData (chatState (handleSubmit_then c i m ct d s)) =
     traitData (chatState s) @ extract_new (updated_state d) (traitData c) ct"
  by (simp add: handleSubmit_then_def Let_def)

lemma reconcile_then:
  "reconcile i m ct d s = handleSubmit_then (chatState s) i m ct d s"
  by (simp add: reconcile_def handleSubmit_resolved_def fetch_outcome_Parsed ok_200)

lemma traitData_reconcile:
  "traitData (chatState (reconcile i m ct d s)) =
     traitData (chatState s) @
       extract_new (updated_state d) (traitData (chatState s)) ct"
  by (simp add: reconcile_then traitData_handleSubmit_then)

lemma existingCount_reconcile:
  "existingCount (traitData (chatState (reconcile i m ct d s))) t =
     existingCount (traitData (chatState s)) t +
       length (new_indices (updated_state d) (traitData (chatState s)) t)"
  by (simp add: traitData_reconcile existingCount_append existingCount_extract_new)

text \<open>
  Where no index between the count of records and the end of the scores and sentences
  is skipped, the count of records after a reconciliation is the index the next one
  starts from, and reconciling the same response again adds nothing.
\<close>

lemma no_data_beyond:
  "length sc \<le> j \<Longrightarrow> length se \<le> j \<Longrightarrow> \<not> has_data sc se j"
  by (simp add: has_data_def at_index_def truthy_string_def)

lemma new_indices_beyond:
  assumes "length (or_empty (score_field us t)) \<le> existingCount tds t"
    and "length (or_empty (sentences_field us t)) \<le> existingCount tds t"
  shows "new_indices us tds t = []"
proof -
  have "\<not> has_data (or_empty (score_field us t)) (or_empty (sentences_field us t)) j"
    if "j \<in> set [existingCount tds t..<maxLength us t]" for j
    using that assms by (intro no_data_beyond) simp_all
  then have "filter (has_data (or_empty (score_field us t)) (or_empty (sentences_field us t)))
               [existingCount tds t..<maxLength us t] = []"
    by (simp only: filter_empty_conv) blast
  then show ?thesis by (simp add: new_indices_def)
qed

lemma length_new_indices_without_gap:
  fixes us tds t
  defines "M \<equiv> max (length (or_empty (score_field us t)))
                     (length (or_empty (sentences_field us t)))"
  assumes gap: "\<And>j. existingCount tds t \<le> j \<Longrightarrow> j < M \<Longrightarrow>
     has_data (or_empty (score_field us t)) (or_empty (sentences_field us t)) j"
  shows "length (new_indices us tds t) = M - existingCount tds t"
proof (cases "has_new_data us tds t")
  case False
  then have "M \<le> existingCount tds t" by (simp add: has_new_data_def M_def)
  with False show ?thesis by (simp add: new_indices_def)
next
  case True
  let ?E = "existingCount tds t"
  let ?h = "has_data (or_empty (score_field us t)) (or_empty (sentences_field us t))"
  have top: "M \<le> maxLength us t" unfolding M_def maxLength_def by linarith
  have "?h j \<longleftrightarrow> j < M" if "?E \<le> j" for j
  proof (cases "j < M")
    case True
    with gap [OF that] show ?thesis by simp
  next
    case False
    then have "\<not> ?h j" by (intro no_data_beyond) (simp_all add: M_def)
    with False show ?thesis by simp
  qed
  then have "filter ?h [?E..<maxLength us t] = filter (\<lambda>j. j < M) [?E..<maxLength us t]"
    by (intro filter_cong) simp_all
  also have "length \<dots> = card ({j. j < M} \<inter> set [?E..<maxLength us t])"
    by (simp add: distinct_length_filter)
  also have "{j. j < M} \<inter> set [?E..<maxLength us t] = {?E..<M}"
    using top by auto
  finally show ?thesis using True by (simp add: new_indices_def)
qed

lemma reconcile_idempotent_without_gap:
  fixes d s t
  defines "M \<equiv> max (length (or_empty (score_field (updated_state d) t)))
                     (length (or_empty (sentences_field (updated_state d) t)))"
  assumes gap: "\<And>j. existingCount (traitData (chatState s)) t \<le> j \<Longrightarrow> j < M \<Longrightarrow>
     has_data (or_empty (score_field (updated_state d) t))
       (or_empty (sentences_field (updated_state d) t)) j"
  shows "existingCount (traitData (chatState (reconcile i' m' ct' d (reconcile i m ct d s)))) t =
         existingCount (traitData (chatState (reconcile i m ct d s))) t"
proof -
  let ?s1 = "reconcile i m ct d s"
  have "length (new_indices (updated_state d) (traitData (chatState s)) t) =
          M - existingCount (traitData (chatState s)) t"
    unfolding M_def by (rule length_new_indices_without_gap) (use gap in \<open>simp add: M_def\<close>)
  then have "M \<le> existingCount (traitData (chatState ?s1)) t"
    by (simp add: existingCount_reconcile)
  then have "new_indices (updated_state d) (traitData (chatState ?s1)) t = []"
    by (intro new_indices_beyond) (simp_all add: M_def)
  then show ?thesis by (simp add: existingCount_reconcile)
qed

lemmas extraction_defs =
  extract_new_def traits_def process_trait_def has_new_data_def maxLength_def or_empty_def
  existingCount_def has_data_def at_index_def truthy_string_def for_loop.simps
  new_record_def

lemma handleSubmit_resolved_ok:
  "ok st \<Longrightarrow> handleSubmit_resolved c i m ct (Responded st (Parsed d)) s =
     handleSubmit_then c i m ct d s"
  by (simp add: handleSubmit_resolved_def fetch_outcome_Parsed)

lemma traitData_handleSubmit_catch:
  "traitData (chatState (handleSubmit_catch i m msg s)) = traitData (chatState s)"
  by (simp add: handleSubmit_catch_def Let_def)

lemma count_after_extract:
  "existingCount (tds @ extract_new us tds ct) t \<le> max (existingCount tds t) (maxLength us t)"
  using length_new_indices [of us tds t]
  by (simp add: existingCount_append existingCount_extract_new)

section \<open>Absent arrays\<close>

lemma same_arraysD:
  assumes "same_arrays us us'"
  shows "or_empty (score_field us t) = or_empty (score_field us' t)"
    and "or_empty (confidence_field us t) = or_empty (confidence_field us' t)"
    and "or_empty (sentences_field us t) = or_empty (sentences_field us' t)"
    and "or_empty (rationale_field us t) = or_empty (rationale_field us' t)"
  using assms by (cases t; simp add: same_arrays_def traits_def)+

lemma process_trait_same_arrays:
  assumes "same_arrays us us'"
  shows "process_trait us tds ct acc t = process_trait us' tds ct acc t"
  by (simp add: process_trait_def has_new_data_def maxLength_def same_arraysD [OF assms])

lemma extract_new_same_arrays:
  assumes "same_arrays us us'"
  shows "extract_new us tds ct = extract_new us' tds ct"
proof -
  have "process_trait us tds ct = process_trait us' tds ct"
    by (intro ext) (rule process_trait_same_arrays [OF assms])
  then show ?thesis by (simp add: extract_new_def)
qed

lemma handleSubmit_then_same_arrays:
  assumes "same_arrays (updated_state d) (updated_state d')"
    and "response d = response d'"
    and "continue_conversation (updated_state d) = continue_conversation (updated_state d')"
    and "persona (updated_state d) = persona (updated_state d')"
    and "current_priority (updated_state d) = current_priority (updated_state d')"
    and "current_iteration (updated_state d) = current_iteration (updated_state d')"
  shows "handleSubmit_then c i m ct d s =
           with_blob (updated_state d) (handleSubmit_then c i m ct d' s)"
  using assms(2-)
  by (simp add: handleSubmit_then_def Let_def with_blob_def
        extract_new_same_arrays [OF assms(1)])

lemma same_arrays_scores:
  "same_arrays (updated_state (with_scores t None d)) (updated_state (with_scores t (Some []) d))"
  by (simp add: same_arrays_def with_scores_def traits_def or_empty_def)

lemma same_arrays_confidences:
  "same_arrays (updated_state (with_confidences t None d))
     (updated_state (with_confidences t (Some []) d))"
  by (simp add: same_arrays_def with_confidences_def traits_def or_empty_def)

lemma same_arrays_sentences:
  "same_arrays (updated_state (with_sentences t None d))
     (updated_state (with_sentences t (Some []) d))"
  by (simp add: same_arrays_def with_sentences_def traits_def or_empty_def)

lemma same_arrays_rationales:
  "same_arrays (updated_state (with_rationales t None d))
     (updated_state (with_rationales t (Some []) d))"
  by (simp add: same_arrays_def with_rationales_def traits_def or_empty_def)

section \<open>Invariants of the transition system\<close>

lemma longest_seen_Cons:
  "longest_seen t (e # es) = max (longest_seen t [e]) (longest_seen t es)"
  by (cases e) (simp_all split: sum.splits)

lemma dispatch_closure_current:
  "closure_current s \<Longrightarrow> closure_current (dispatch e s)"
  by (cases e)
     (auto simp: closure_current_def handleSubmit_call_def Let_def generatePersona_call_def
        generatePersona_resolved_def split: option.splits sum.splits)

lemma run_closure_current:
  "closure_current s \<Longrightarrow> closure_current (run evs s)"
  by (induction evs arbitrary: s) (simp_all add: dispatch_closure_current)

lemma closure_current_initial: "closure_current initial_app"
  by (simp add: closure_current_def initial_app_def)

lemma traitData_dispatch:
  "traitData (chatState (dispatch e s)) =
     traitData (chatState s) @
       (case e of
          ChatSettled i m ct r \<Rightarrow>
            (case pendingChat s of
               None \<Rightarrow> []
             | Some c \<Rightarrow>
                 (case fetch_outcome r of
                    Inl msg \<Rightarrow> []
                  | Inr d \<Rightarrow> extract_new (updated_state d) (traitData c) ct))
        | _ \<Rightarrow> [])"
  by (cases e)
     (auto simp: handleSubmit_call_def Let_def generatePersona_call_def
        generatePersona_resolved_def handleSubmit_resolved_def traitData_handleSubmit_catch
        traitData_handleSubmit_then split: option.splits sum.splits)

lemma dispatch_count_bound:
  assumes "closure_current s"
  shows "existingCount (traitData (chatState (dispatch e s))) t
           \<le> max (existingCount (traitData (chatState s)) t) (longest_seen t [e])"
proof (cases e)
  case (ChatSettled i m ct r)
  show ?thesis
  proof (cases "pendingChat s")
    case None
    then show ?thesis by (simp add: ChatSettled)
  next
    case (Some c)
    with assms have c: "traitData c = traitData (chatState s)"
      by (simp add: closure_current_def)
    show ?thesis
    proof (cases "fetch_outcome r")
      case (Inl msg)
      then show ?thesis
        unfolding traitData_dispatch by (simp add: ChatSettled Some existingCount_append existingCount_def)
    next
      case (Inr d)
      then show ?thesis
        unfolding traitData_dispatch
        using count_after_extract [of "traitData (chatState s)" "updated_state d" ct t]
        by (simp add: ChatSettled Some c)
    qed
  qed
qed (simp_all only: traitData_dispatch event.case append_Nil2 max.cobounded1)

lemma run_count_bound:
  "closure_current s \<Longrightarrow>
     existingCount (traitData (chatState (run evs s))) t
       \<le> max (existingCount (traitData (chatState s)) t) (longest_seen t evs)"
proof (induction evs arbitrary: s)
  case Nil
  then show ?case by simp
next
  case (Cons e es)
  have "existingCount (traitData (chatState (run es (dispatch e s)))) t
          \<le> max (existingCount (traitData (chatState (dispatch e s))) t) (longest_seen t es)"
    using Cons.IH [OF dispatch_closure_current [OF Cons.prems]] .
  moreover note dispatch_count_bound [OF Cons.prems, of e t]
  ultimately show ?case
    by (subst longest_seen_Cons) (simp add: max_def split: if_splits)
qed

lemma dispatch_ChatSettled_reconcile:
  assumes "closure_current s" and "pendingChat s = Some c"
  shows "chatState (dispatch (ChatSettled i m ct (Responded 200 (Parsed d))) s) =
           chatState (reconcile i m ct d s)"
proof -
  from assms have c: "traitData c = traitData (chatState s)"
    by (simp add: closure_current_def)
  show ?thesis
    by (simp add: assms(2) reconcile_then handleSubmit_resolved_ok ok_200
          handleSubmit_then_def Let_def c)
qed

lemma isTerminated_dispatch: "isTerminated s \<Longrightarrow> isTerminated (dispatch e s)"
  by (cases e)
     (auto simp: handleSubmit_call_def Let_def generatePersona_call_def
        generatePersona_resolved_def handleSubmit_resolved_def handleSubmit_catch_def
        handleSubmit_then_def split: option.splits sum.splits)

lemma shouldContinue_dispatch: "\<not> shouldContinue s \<Longrightarrow> \<not> shouldContinue (dispatch e s)"
  by (cases e)
     (auto simp: handleSubmit_call_def Let_def generatePersona_call_def
        generatePersona_resolved_def handleSubmit_resolved_def handleSubmit_catch_def
        handleSubmit_then_def split: option.splits sum.splits)


lemma shouldContinue_run: "\<not> shouldContinue s \<Longrightarrow> \<not> shouldContinue (run evs s)"
  by (induction evs arbitrary: s) (simp_all add: shouldContinue_dispatch)

lemma input_closed_dispatch: "input_closed s \<Longrightarrow> input_closed (dispatch e s)"
  unfolding input_closed_def using isTerminated_dispatch shouldContinue_dispatch by blast

lemma closed_dispatch_keeps:
  assumes "input_closed s"
  shows "user_messages (dispatch e s) = user_messages s" and "input (dispatch e s) = input s"
  using assms
  by (cases e;
      auto simp: input_closed_def user_messages_def inputFormRendered_def sendDisabled_def
        inputDisabled_def generatePersona_call_def generatePersona_resolved_def
        handleSubmit_resolved_def handleSubmit_catch_def handleSubmit_then_def Let_def
        split: option.splits sum.splits)+

lemma closed_run_keeps:
  "input_closed s \<Longrightarrow> user_messages (run evs s) = user_messages s \<and> input (run evs s) = input s"
  by (induction evs arbitrary: s)
     (simp_all add: closed_dispatch_keeps input_closed_dispatch)

lemma persona_in_sync_dispatch: "persona_in_sync s \<Longrightarrow> persona_in_sync (dispatch e s)"
  by (cases e)
     (auto simp: persona_in_sync_def handleSubmit_call_def Let_def generatePersona_call_def
        generatePersona_resolved_def handleSubmit_resolved_def handleSubmit_catch_def
        handleSubmit_then_def split: option.splits sum.splits)

lemma persona_in_sync_run: "persona_in_sync s \<Longrightarrow> persona_in_sync (run evs s)"
  by (induction evs arbitrary: s) (simp_all add: persona_in_sync_dispatch)

section \<open>The aggregation\<close>

lemma map_fst_update_key: "map fst (update_key k f xs) = map fst xs"
  by (induction xs) (auto simp: update_key_def)

lemma map_of_update_key:
  "map_of (update_key k f xs) t = (if t = k then map_option f (map_of xs t) else map_of xs t)"
  by (induction xs) (auto simp: update_key_def)

lemma aggregate_step_Some:
  "score d = Some sc \<Longrightarrow>
     aggregate_step aggs d =
       update_key (trait d) (bump sc (confidence_or_0 d))
         (if map_of aggs (trait d) = None
          then aggs @ [(trait d, \<lparr>totalScore = 0, totalConfidence = 0, count = 0\<rparr>)]
          else aggs)"
  by (simp add: aggregate_step_def update_key_def confidence_or_0_def Let_def)

lemma aggregate_step_None: "score d = None \<Longrightarrow> aggregate_step aggs d = aggs"
  by (simp add: aggregate_step_def)

lemma aggregate_of_empty:
  "scored t tds = [] \<Longrightarrow>
     aggregate_of t tds = \<lparr>totalScore = 0, totalConfidence = 0, count = 0\<rparr>"
  by (simp add: aggregate_of_def)

lemma aggregate_of_snoc:
  "score d = Some sc \<Longrightarrow>
     aggregate_of (trait d) (tds @ [d]) =
       bump sc (confidence_or_0 d) (aggregate_of (trait d) tds)"
  by (simp add: aggregate_of_def scored_def bump_def score_or_0_def)

lemma aggregate_of_other:
  "trait d \<noteq> t \<or> score d = None \<Longrightarrow> aggregate_of t (tds @ [d]) = aggregate_of t tds"
  by (auto simp: aggregate_of_def scored_def)

lemma scored_snoc:
  "scored t (tds @ [d]) =
     (if trait d = t \<and> score d \<noteq> None then scored t tds @ [d] else scored t tds)"
  by (simp add: scored_def)

lemma represents_step:
  assumes "represents aggs tds"
  shows "represents (aggregate_step aggs d) (tds @ [d])"
proof (cases "score d")
  case None
  with assms show ?thesis
    by (simp add: represents_def aggregate_step_None scored_snoc aggregate_of_other)
next
  case (Some sc)
  let ?k = "trait d"
  let ?created = "if map_of aggs ?k = None
          then aggs @ [(?k, \<lparr>totalScore = 0, totalConfidence = 0, count = 0\<rparr>)] else aggs"
  from assms have dist: "distinct (map fst aggs)"
    and mo: "\<And>t. map_of aggs t = (if scored t tds = [] then None else Some (aggregate_of t tds))"
    by (simp_all add: represents_def)
  have d1: "distinct (map fst ?created)"
    using dist by (auto simp: map_of_eq_None_iff)
  have c1: "map_of ?created ?k = Some (aggregate_of ?k tds)"
  proof (cases "map_of aggs ?k")
    case None
    with mo [of ?k] have "scored ?k tds = []" by (simp split: if_splits)
    with None show ?thesis by (simp add: aggregate_of_empty map_add_def)
  next
    case (Some a)
    with mo [of ?k] show ?thesis by (simp split: if_splits)
  qed
  have c2: "map_of ?created t = map_of aggs t" if "t \<noteq> ?k" for t
    using that by (auto simp: map_add_def split: option.splits)
  have "map_of (aggregate_step aggs d) t =
          (if scored t (tds @ [d]) = [] then None else Some (aggregate_of t (tds @ [d])))" for t
  proof (cases "t = ?k")
    case True
    then show ?thesis
      unfolding aggregate_step_Some [OF Some] map_of_update_key
      using c1 Some by (simp add: scored_snoc aggregate_of_snoc)
  next
    case False
    then have "trait d \<noteq> t" by simp
    then show ?thesis
      unfolding aggregate_step_Some [OF Some] map_of_update_key
      using c2 [OF False] mo [of t] by (simp add: scored_snoc aggregate_of_other)
  qed
  moreover have "distinct (map fst (aggregate_step aggs d))"
    unfolding aggregate_step_Some [OF Some] map_fst_update_key by (rule d1)
  ultimately show ?thesis by (simp add: represents_def)
qed

lemma represents_foldl: "represents (foldl aggregate_step [] tds) tds"
proof (induction tds rule: rev_induct)
  case Nil
  show ?case by (simp add: represents_def scored_def)
next
  case (snoc d tds)
  then show ?case by (simp add: represents_step)
qed

lemma s_trait_getLatestTraitScores:
  "map s_trait (getLatestTraitScores cs) = map fst (foldl aggregate_step [] (traitData cs))"
  by (simp add: getLatestTraitScores_def case_prod_beta comp_def)

lemma scored_nonempty: "scored t tds \<noteq> [] \<longleftrightarrow> (\<exists>d\<in>set tds. trait d = t \<and> score d \<noteq> None)"
  by (simp add: scored_def filter_empty_conv)

lemma traits_of_summary:
  "set (map s_trait (getLatestTraitScores cs)) =
     {t. \<exists>d\<in>set (traitData cs). trait d = t \<and> score d \<noteq> None}"
proof -
  let ?aggs = "foldl aggregate_step [] (traitData cs)"
  have r: "represents ?aggs (traitData cs)" by (rule represents_foldl)
  have "set (map fst ?aggs) = dom (map_of ?aggs)" by (simp add: dom_map_of_conv_image_fst)
  also have "\<dots> = {t. scored t (traitData cs) \<noteq> []}"
    using r by (auto simp: represents_def dom_def)
  finally show ?thesis by (simp add: s_trait_getLatestTraitScores scored_nonempty)
qed

lemma summary_values:
  assumes "r \<in> set (getLatestTraitScores cs)"
  shows "s_score r = sum_list (map score_or_0 (scored (s_trait r) (traitData cs)))
                       / real (length (scored (s_trait r) (traitData cs)))"
    and "s_confidence r = sum_list (map confidence_or_0 (scored (s_trait r) (traitData cs)))
                       / real (length (scored (s_trait r) (traitData cs)))"
proof -
  let ?aggs = "foldl aggregate_step [] (traitData cs)"
  have rp: "represents ?aggs (traitData cs)" by (rule represents_foldl)
  from assms obtain t a where ta: "(t, a) \<in> set ?aggs"
    and r: "r = \<lparr>s_trait = t, s_score = totalScore a / real (count a),
                  s_confidence = totalConfidence a / real (count a)\<rparr>"
    by (auto simp: getLatestTraitScores_def)
  from rp have dist: "distinct (map fst ?aggs)"
    and mo: "map_of ?aggs t = (if scored t (traitData cs) = [] then None
                                else Some (aggregate_of t (traitData cs)))"
    by (simp_all add: represents_def)
  have "map_of ?aggs t = Some a" using dist ta by (rule map_of_is_SomeI)
  with mo have a: "a = aggregate_of t (traitData cs)"
    by (simp split: if_splits)
  show "s_score r = sum_list (map score_or_0 (scored (s_trait r) (traitData cs)))
                       / real (length (scored (s_trait r) (traitData cs)))"
    by (simp add: r a aggregate_of_def)
  show "s_confidence r = sum_list (map confidence_or_0 (scored (s_trait r) (traitData cs)))
                       / real (length (scored (s_trait r) (traitData cs)))"
    by (simp add: r a aggregate_of_def)
qed

lemma distinct_summary: "distinct (map s_trait (getLatestTraitScores cs))"
  using represents_foldl [of "traitData cs"]
  by (simp add: s_trait_getLatestTraitScores represents_def)

lemma no_summary_iff:
  "getLatestTraitScores cs = [] \<longleftrightarrow> (\<forall>d\<in>set (traitData cs). score d = None)"
proof -
  have "getLatestTraitScores cs = [] \<longleftrightarrow> set (map s_trait (getLatestTraitScores cs)) = {}"
    by simp
  also have "\<dots> \<longleftrightarrow> (\<forall>d\<in>set (traitData cs). score d = None)"
    unfolding traits_of_summary by auto
  finally show ?thesis .
qed

section \<open>Decimal text\<close>

lemma digit_value_nth: "k < 10 \<Longrightarrow> digit_value (''0123456789'' ! k) = k"
proof -
  assume "k < 10"
  then have "k \<in> {0, 1, 2, 3, 4, 5, 6, 7, 8, 9}" by auto
  then show ?thesis by (auto simp: digit_value_def)
qed

lemma decimal_value_digits: "decimal_value (digits n) = n"
proof (induction n rule: digits.induct)
  case (1 n)
  show ?case
  proof (cases "n < 10")
    case True
    then show ?thesis by (subst digits.simps) (simp add: decimal_value_def digit_value_nth)
  next
    case False
    with 1 have "decimal_value (digits (n div 10)) = n div 10" by simp
    with False show ?thesis
      by (subst digits.simps) (simp add: decimal_value_def digit_value_nth)
  qed
qed

lemma decimal_value_toString: "decimal_value (toString (int n)) = n"
proof -
  have "\<not> int n < 0" by simp
  then have "toString (int n) = digits n"
    unfolding toString_def by (simp only: if_False nat_int)
  then show ?thesis by (simp only: decimal_value_digits)
qed

section \<open>Claims\<close>

text \<open>
  C1 (idempotence of reconciliation) fails on a response with a gap. Starting from the
  initial state, the response \<open>gap_response\<close> is reconciled twice. The first
  reconciliation skips index 0 of the awareness arrays (empty sentence, no score) and
  materializes index 1, so one awareness record exists. The second reconciliation of the
  same response starts again at index 1, because the count of records is 1, and
  materializes index 1 a second time: the count of awareness records grows from 1 to 2.
  (Lemma \<open>reconcile_idempotent_without_gap\<close> above: without a skipped index the second
  reconciliation adds nothing.)
\<close>

theorem redelivery_duplicates_after_gap:
  "traitData (chatState (reconcile 10 11 12 gap_response initial_app)) = [gap_record 12]
   \<and> traitData (chatState (reconcile 20 21 22 gap_response
        (reconcile 10 11 12 gap_response initial_app))) = [gap_record 12, gap_record 22]
   \<and> existingCount (traitData (chatState
        (reconcile 10 11 12 gap_response initial_app))) Awareness = 1
   \<and> existingCount (traitData (chatState (reconcile 20 21 22 gap_response
        (reconcile 10 11 12 gap_response initial_app)))) Awareness = 2"
  unfolding traitData_reconcile
  by (simp add: extraction_defs gap_response_def gap_record_def initial_app_def
        initial_chatState_def)

text \<open>
  C2. Two successive responses carry, for a trait \<open>t\<close>, four arrays of length \<open>N1\<close> and
  then four arrays of length \<open>N2\<close>, with \<open>N1 \<le> N2\<close>, and the first reconciliation
  processes the arrays up to \<open>N1\<close>: the state it starts from holds at most \<open>N1\<close> records
  of \<open>t\<close> (none in a new session). Then \<open>N1\<close> records of \<open>t\<close> exist after the first
  reconciliation, and the second one appends exactly \<open>N2 - N1\<close> records of \<open>t\<close>, those
  of the indices \<open>N1, ..., N2 - 1\<close>.
\<close>

theorem second_reconciliation_materializes_difference:
  assumes a1: "length (or_empty (score_field (updated_state d1) t)) = N1"
      "length (or_empty (confidence_field (updated_state d1) t)) = N1"
      "length (or_empty (sentences_field (updated_state d1) t)) = N1"
      "length (or_empty (rationale_field (updated_state d1) t)) = N1"
    and a2: "length (or_empty (score_field (updated_state d2) t)) = N2"
      "length (or_empty (confidence_field (updated_state d2) t)) = N2"
      "length (or_empty (sentences_field (updated_state d2) t)) = N2"
      "length (or_empty (rationale_field (updated_state d2) t)) = N2"
    and le: "N1 \<le> N2"
    and prior: "existingCount (traitData (chatState s0)) t \<le> N1"
  shows "existingCount (traitData (chatState (reconcile i1 m1 c1 d1 s0))) t = N1
    \<and> traitData (chatState (reconcile i2 m2 c2 d2 (reconcile i1 m1 c1 d1 s0))) =
        traitData (chatState (reconcile i1 m1 c1 d1 s0)) @
          extract_new (updated_state d2)
            (traitData (chatState (reconcile i1 m1 c1 d1 s0))) c2
    \<and> existingCount (extract_new (updated_state d2)
            (traitData (chatState (reconcile i1 m1 c1 d1 s0))) c2) t = N2 - N1
    \<and> map strip (filter (\<lambda>d. trait d = t) (extract_new (updated_state d2)
            (traitData (chatState (reconcile i1 m1 c1 d1 s0))) c2)) =
        map (materialized (updated_state d2) t) [N1..<N2]"
proof -
  let ?s1 = "reconcile i1 m1 c1 d1 s0"
  have m1: "maxLength (updated_state d1) t = N1" using a1 by (simp add: maxLength_def)
  have m2: "maxLength (updated_state d2) t = N2" using a2 by (simp add: maxLength_def)
  have n1: "new_indices (updated_state d1) (traitData (chatState s0)) t =
              [existingCount (traitData (chatState s0)) t..<N1]"
    using new_indices_full [of "updated_state d1" t "traitData (chatState s0)"] a1 m1 prior
    by simp
  have c1: "existingCount (traitData (chatState ?s1)) t = N1"
    using prior by (simp add: existingCount_reconcile n1)
  have n2: "new_indices (updated_state d2) (traitData (chatState ?s1)) t = [N1..<N2]"
    using new_indices_full [of "updated_state d2" t "traitData (chatState ?s1)"] a2 m2 c1 le
    by simp
  have t2: "traitData (chatState (reconcile i2 m2 c2 d2 ?s1)) =
        traitData (chatState ?s1) @
          extract_new (updated_state d2) (traitData (chatState ?s1)) c2"
    by (rule traitData_reconcile)
  have k2: "existingCount (extract_new (updated_state d2) (traitData (chatState ?s1)) c2) t
        = N2 - N1"
    by (simp add: existingCount_extract_new n2)
  have r2: "map strip (filter (\<lambda>d. trait d = t)
          (extract_new (updated_state d2) (traitData (chatState ?s1)) c2)) =
        map (materialized (updated_state d2) t) [N1..<N2]"
    by (simp only: extract_new_trait n2)
  from c1 t2 k2 r2 show ?thesis by blast
qed

theorem second_reconciliation_witness:
  "existingCount (traitData (chatState (reconcile 200 201 202 one_assessment initial_app)))
     Awareness = 1
   \<and> existingCount (extract_new (updated_state three_assessments)
        (traitData (chatState (reconcile 200 201 202 one_assessment initial_app))) 402)
        Awareness = 2"
proof -
  have a1: "length (or_empty (score_field (updated_state one_assessment) Awareness)) = 1"
    "length (or_empty (confidence_field (updated_state one_assessment) Awareness)) = 1"
    "length (or_empty (sentences_field (updated_state one_assessment) Awareness)) = 1"
    "length (or_empty (rationale_field (updated_state one_assessment) Awareness)) = 1"
    by (simp_all add: one_assessment_def awareness_arrays_def or_empty_def)
  have a2: "length (or_empty (score_field (updated_state three_assessments) Awareness)) = 3"
    "length (or_empty (confidence_field (updated_state three_assessments) Awareness)) = 3"
    "length (or_empty (sentences_field (updated_state three_assessments) Awareness)) = 3"
    "length (or_empty (rationale_field (updated_state three_assessments) Awareness)) = 3"
    by (simp_all add: three_assessments_def awareness_arrays_def or_empty_def)
  have le: "(1::nat) \<le> 3" by simp
  have prior: "existingCount (traitData (chatState initial_app)) Awareness \<le> 1"
    by (simp add: initial_app_def initial_chatState_def existingCount_def)
  from second_reconciliation_materializes_difference
         [OF a1 a2 le prior, of 200 201 202 400 401 402]
  show ?thesis by simp
qed

text \<open>
  C3. A chat response that parsed and whose \<^verbatim>\<open>response\<close> is the string \<^verbatim>\<open>"terminate"\<close> sets
  \<^verbatim>\<open>isTerminated\<close>, so the input form is no longer rendered, whatever
  \<^verbatim>\<open>continue_conversation\<close> is.
\<close>

theorem terminate_sentinel_terminates:
  assumes "ok st" and "response d = ''terminate''"
  shows "isTerminated (handleSubmit_resolved c i m ct (Responded st (Parsed d)) s)
     \<and> \<not> inputFormRendered (handleSubmit_resolved c i m ct (Responded st (Parsed d)) s)"
  using assms
  by (simp add: handleSubmit_resolved_ok handleSubmit_then_def Let_def inputFormRendered_def)

theorem terminate_sentinel_witness:
  "continue_conversation (updated_state terminate_response)
   \<and> isTerminated (handleSubmit_resolved initial_chatState 200 201 202
         (Responded 200 (Parsed terminate_response)) initial_app)
   \<and> \<not> inputFormRendered (handleSubmit_resolved initial_chatState 200 201 202
         (Responded 200 (Parsed terminate_response)) initial_app)"
proof -
  have r: "response terminate_response = ''terminate''"
    by (simp add: terminate_response_def)
  have c: "continue_conversation (updated_state terminate_response)"
    by (simp add: terminate_response_def)
  from c terminate_sentinel_terminates [OF ok_200 r] show ?thesis by simp
qed

text \<open>
  C4. A chat response that parsed and whose \<^verbatim>\<open>continue_conversation\<close> is false appends one
  assistant message whose content is \<^verbatim>\<open>updated_state.persona\<close>, not \<^verbatim>\<open>response\<close>, and clears
  \<^verbatim>\<open>shouldContinue\<close>: the text field and the send button are disabled, and they stay
  disabled, with no further user message in the transcript, whatever events follow.
\<close>

theorem final_response_shows_persona:
  assumes "ok st" and "\<not> continue_conversation (updated_state d)"
  shows "messages (chatState (handleSubmit_resolved c i m ct (Responded st (Parsed d)) s)) =
           messages (chatState s) @
             [\<lparr>m_id = toString (i + 1), m_type = Ai, m_content = persona (updated_state d),
               m_timestamp = m\<rparr>]
     \<and> \<not> shouldContinue (handleSubmit_resolved c i m ct (Responded st (Parsed d)) s)
     \<and> inputDisabled (handleSubmit_resolved c i m ct (Responded st (Parsed d)) s)
     \<and> sendDisabled (handleSubmit_resolved c i m ct (Responded st (Parsed d)) s)
     \<and> inputDisabled (run evs (handleSubmit_resolved c i m ct (Responded st (Parsed d)) s))
     \<and> sendDisabled (run evs (handleSubmit_resolved c i m ct (Responded st (Parsed d)) s))
     \<and> user_messages (run evs (handleSubmit_resolved c i m ct (Responded st (Parsed d)) s)) =
         user_messages (handleSubmit_resolved c i m ct (Responded st (Parsed d)) s)"
proof -
  let ?s' = "handleSubmit_resolved c i m ct (Responded st (Parsed d)) s"
  have eq: "?s' = handleSubmit_then c i m ct d s"
    using assms(1) by (rule handleSubmit_resolved_ok)
  have msg: "messages (chatState ?s') = messages (chatState s) @
             [\<lparr>m_id = toString (i + 1), m_type = Ai, m_content = persona (updated_state d),
               m_timestamp = m\<rparr>]"
    using assms(2) by (simp add: eq handleSubmit_then_def Let_def)
  have sc: "\<not> shouldContinue ?s'"
    using assms(2) by (simp add: eq handleSubmit_then_def Let_def)
  then have cl: "input_closed ?s'" by (simp add: input_closed_def)
  have later: "\<not> shouldContinue (run evs ?s')" using sc by (rule shouldContinue_run)
  from sc have d1: "inputDisabled ?s'" "sendDisabled ?s'"
    by (simp_all add: inputDisabled_def sendDisabled_def)
  from later have d2: "inputDisabled (run evs ?s')" "sendDisabled (run evs ?s')"
    by (simp_all add: inputDisabled_def sendDisabled_def)
  from closed_run_keeps [OF cl, of evs] have um: "user_messages (run evs ?s') = user_messages ?s'"
    by simp
  from msg sc d1 d2 um show ?thesis by blast
qed

theorem final_response_witness:
  "m_content (last (messages (chatState (handleSubmit_resolved initial_chatState 200 201 202
       (Responded 200 (Parsed final_response)) initial_app)))) = Some ''A careful saver.''
   \<and> sendDisabled (run [TypeInput ''One more thing'', SubmitForm 300 301]
        (handleSubmit_resolved initial_chatState 200 201 202
           (Responded 200 (Parsed final_response)) initial_app))
   \<and> user_messages (run [TypeInput ''One more thing'', SubmitForm 300 301]
        (handleSubmit_resolved initial_chatState 200 201 202
           (Responded 200 (Parsed final_response)) initial_app)) = []"
proof -
  have c: "\<not> continue_conversation (updated_state final_response)"
    by (simp add: final_response_def)
  have u: "user_messages (handleSubmit_resolved initial_chatState 200 201 202
           (Responded 200 (Parsed final_response)) initial_app) = []"
    by (simp add: user_messages_def handleSubmit_resolved_ok ok_200 handleSubmit_then_def
          Let_def initial_app_def initial_chatState_def)
  have p: "persona (updated_state final_response) = Some ''A careful saver.''"
    by (simp add: final_response_def)
  from final_response_shows_persona
         [OF ok_200 c, of initial_chatState 200 201 202 initial_app
            "[TypeInput ''One more thing'', SubmitForm 300 301]"]
  show ?thesis by (simp add: u p)
qed

text \<open>
  C5. When the chat call fails, by a transport error, by a status outside 200-299 or by
  a body that does not parse, the state the call settles on keeps its messages, its
  assessments, its priority and iteration and its backend state blob, and gets exactly
  one new message, of the assistant. The content of that message is the fixed apology
  followed by the text of the error itself: the message of the error thrown, or, for a
  status outside 200-299, the text \<^verbatim>\<open>HTTP error! status: \<close> followed by the status in
  decimal, from which the status is read back. Over the whole turn the messages are the
  prior ones, the message of the user and that one error message.
\<close>

theorem chat_failure_appends_error_message:
  "chatState (handleSubmit_resolved c i m ct (Rejected msg) s) =
     (chatState s)\<lparr>messages := messages (chatState s) @
        [\<lparr>m_id = toString (i + 1), m_type = Ai, m_content = Some (apology @ msg),
          m_timestamp = m\<rparr>]\<rparr>
   \<and> (\<not> ok st \<longrightarrow>
       chatState (handleSubmit_resolved c i m ct (Responded st b) s) =
         (chatState s)\<lparr>messages := messages (chatState s) @
            [\<lparr>m_id = toString (i + 1), m_type = Ai,
              m_content = Some (apology @ ''HTTP error! status: '' @ toString (int st)),
              m_timestamp = m\<rparr>]\<rparr>)
   \<and> decimal_value (toString (int st)) = st
   \<and> (ok st \<longrightarrow>
       chatState (handleSubmit_resolved c i m ct (Responded st (Malformed msg)) s) =
         (chatState s)\<lparr>messages := messages (chatState s) @
            [\<lparr>m_id = toString (i + 1), m_type = Ai, m_content = Some (apology @ msg),
              m_timestamp = m\<rparr>]\<rparr>)
   \<and> (inputFormRendered s \<and> \<not> sendDisabled s \<and> fetch_outcome r = Inl msg \<longrightarrow>
       chatState (dispatch (ChatSettled i m ct r) (dispatch (SubmitForm i0 m0) s)) =
         (chatState s)\<lparr>messages := messages (chatState s) @
            [\<lparr>m_id = toString i0, m_type = User, m_content = Some (trim (input s)),
              m_timestamp = m0\<rparr>,
             \<lparr>m_id = toString (i + 1), m_type = Ai, m_content = Some (apology @ msg),
              m_timestamp = m\<rparr>]\<rparr>)"
  by (simp add: handleSubmit_resolved_def fetch_outcome_def handleSubmit_catch_def Let_def
        sendDisabled_def handleSubmit_call_def error_content_def apology_def
        decimal_value_toString)

theorem chat_failure_witness:
  "\<not> ok 500
   \<and> chatState (handleSubmit_resolved initial_chatState 200 201 202
        (Responded 500 (Malformed ''Unexpected token'')) initial_app) =
       initial_chatState\<lparr>messages :=
         [\<lparr>m_id = ''201'', m_type = Ai,
           m_content = Some (''I apologize, but I'' @ [CHR 0x27] @
             ''m having trouble connecting right now. Please try again.'' @ [CHR 0x0A] @
             ''Error: HTTP error! status: 500''),
           m_timestamp = 201\<rparr>]\<rparr>
   \<and> decimal_value ''500'' = 500
   \<and> chatState (handleSubmit_resolved initial_chatState 200 201 202
        (Responded 200 (Malformed ''Unexpected token'')) initial_app) =
       initial_chatState\<lparr>messages :=
         [\<lparr>m_id = ''201'', m_type = Ai,
           m_content = Some (''I apologize, but I'' @ [CHR 0x27] @
             ''m having trouble connecting right now. Please try again.'' @ [CHR 0x0A] @
             ''Error: Unexpected token''),
           m_timestamp = 201\<rparr>]\<rparr>
   \<and> chatState (dispatch (ChatSettled 200 201 202 (Rejected ''Failed to fetch''))
        (dispatch (SubmitForm 100 101) typed_hi)) =
       initial_chatState\<lparr>messages :=
         [\<lparr>m_id = ''100'', m_type = User, m_content = Some ''Hi'', m_timestamp = 101\<rparr>,
          \<lparr>m_id = ''201'', m_type = Ai,
           m_content = Some (''I apologize, but I'' @ [CHR 0x27] @
             ''m having trouble connecting right now. Please try again.'' @ [CHR 0x0A] @
             ''Error: Failed to fetch''),
           m_timestamp = 201\<rparr>]\<rparr>"
proof -
  have n: "\<not> ok 500" by (simp add: ok_def)
  have d: "toString 201 = ''201''" "toString 500 = ''500''" "toString 100 = ''100''"
    by code_simp+
  have t: "trim (input typed_hi) = ''Hi''"
    by code_simp
  have g: "inputFormRendered typed_hi" "\<not> sendDisabled typed_hi"
    by (simp_all add: inputFormRendered_def sendDisabled_def t)
       (simp_all add: typed_hi_def initial_app_def)
  have f: "fetch_outcome (Rejected ''Failed to fetch'' :: chat_response fetch_result)
             = Inl ''Failed to fetch''"
    by (simp add: fetch_outcome_def)
  have c: "chatState typed_hi = initial_chatState"
    by (simp add: typed_hi_def initial_app_def)
  from chat_failure_appends_error_message
         [of initial_chatState 200 201 202 "''Unexpected token''" initial_app 500
            "Malformed ''Unexpected token''"]
       n
  have w1: "chatState (handleSubmit_resolved initial_chatState 200 201 202
        (Responded 500 (Malformed ''Unexpected token'')) initial_app) =
       initial_chatState\<lparr>messages :=
         [\<lparr>m_id = ''201'', m_type = Ai,
           m_content = Some (''I apologize, but I'' @ [CHR 0x27] @
             ''m having trouble connecting right now. Please try again.'' @ [CHR 0x0A] @
             ''Error: HTTP error! status: 500''),
           m_timestamp = 201\<rparr>]\<rparr>"
    and w0: "decimal_value ''500'' = 500"
    by (simp_all add: d initial_app_def initial_chatState_def apology_def)
  from chat_failure_appends_error_message
         [of initial_chatState 200 201 202 "''Unexpected token''" initial_app 200]
       ok_200
  have w2: "chatState (handleSubmit_resolved initial_chatState 200 201 202
        (Responded 200 (Malformed ''Unexpected token'')) initial_app) =
       initial_chatState\<lparr>messages :=
         [\<lparr>m_id = ''201'', m_type = Ai,
           m_content = Some (''I apologize, but I'' @ [CHR 0x27] @
             ''m having trouble connecting right now. Please try again.'' @ [CHR 0x0A] @
             ''Error: Unexpected token''),
           m_timestamp = 201\<rparr>]\<rparr>"
    by (simp add: d initial_app_def initial_chatState_def apology_def)
  from chat_failure_appends_error_message
         [of initial_chatState 200 201 202 "''Failed to fetch''" typed_hi 200 _
            "Rejected ''Failed to fetch''" 100 101]
       g f
  have w3: "chatState (dispatch (ChatSettled 200 201 202 (Rejected ''Failed to fetch''))
        (dispatch (SubmitForm 100 101) typed_hi)) =
       initial_chatState\<lparr>messages :=
         [\<lparr>m_id = ''100'', m_type = User, m_content = Some ''Hi'', m_timestamp = 101\<rparr>,
          \<lparr>m_id = ''201'', m_type = Ai,
           m_content = Some (''I apologize, but I'' @ [CHR 0x27] @
             ''m having trouble connecting right now. Please try again.'' @ [CHR 0x0A] @
             ''Error: Failed to fetch''),
           m_timestamp = 201\<rparr>]\<rparr>"
    by (simp add: d t c initial_chatState_def apology_def)
  from n w0 w1 w2 w3 show ?thesis by blast
qed

text \<open>
  C6. \<^verbatim>\<open>getLatestTraitScores\<close> returns one summary per trait that has an assessment with a
  score, and none for a trait that has no such assessment. The score of a summary is
  the sum of the scores of the scored assessments of its trait divided by their number;
  its confidence is the sum of their confidences, an absent confidence counting as 0,
  divided by the same number. Over two assessments of awareness with the scores 3 and 5
  and no confidence the result is the one summary of awareness with score 4 and
  confidence 0.
\<close>

theorem getLatestTraitScores_means:
  "distinct (map s_trait (getLatestTraitScores cs))
   \<and> set (map s_trait (getLatestTraitScores cs)) =
       {t. \<exists>d\<in>set (traitData cs). trait d = t \<and> score d \<noteq> None}
   \<and> (\<forall>r\<in>set (getLatestTraitScores cs).
         s_score r = sum_list (map score_or_0 (scored (s_trait r) (traitData cs)))
                       / real (length (scored (s_trait r) (traitData cs)))
       \<and> s_confidence r = sum_list (map confidence_or_0 (scored (s_trait r) (traitData cs)))
                       / real (length (scored (s_trait r) (traitData cs))))
   \<and> getLatestTraitScores
        (cs\<lparr>traitData :=
             [\<lparr>trait = Awareness, score = Some 3, confidence = None, sentence = se1,
               rationale = ra1, timestamp = ts1\<rparr>,
              \<lparr>trait = Awareness, score = Some 5, confidence = None, sentence = se2,
               rationale = ra2, timestamp = ts2\<rparr>]\<rparr>) =
       [\<lparr>s_trait = Awareness, s_score = 4, s_confidence = 0\<rparr>]"
proof -
  have ex: "getLatestTraitScores
        (cs\<lparr>traitData :=
             [\<lparr>trait = Awareness, score = Some 3, confidence = None, sentence = se1,
               rationale = ra1, timestamp = ts1\<rparr>,
              \<lparr>trait = Awareness, score = Some 5, confidence = None, sentence = se2,
               rationale = ra2, timestamp = ts2\<rparr>]\<rparr>) =
       [\<lparr>s_trait = Awareness, s_score = 4, s_confidence = 0\<rparr>]"
    by (simp add: getLatestTraitScores_def aggregate_step_def bump_def)
  from distinct_summary [of cs] traits_of_summary [of cs] summary_values [of _ cs] ex
  show ?thesis by blast
qed

theorem getLatestTraitScores_witness:
  "getLatestTraitScores (initial_chatState\<lparr>traitData := two_scores\<rparr>) =
     [\<lparr>s_trait = Awareness, s_score = 4, s_confidence = 0\<rparr>]
   \<and> sum_list (map score_or_0 (scored Awareness two_scores))
        / real (length (scored Awareness two_scores)) = 4
   \<and> sum_list (map confidence_or_0 (scored Awareness two_scores))
        / real (length (scored Awareness two_scores)) = 0
   \<and> {t. \<exists>d\<in>set two_scores. trait d = t \<and> score d \<noteq> None} = {Awareness}"
proof -
  let ?cs = "initial_chatState\<lparr>traitData := two_scores\<rparr>"
  have ex: "getLatestTraitScores ?cs = [\<lparr>s_trait = Awareness, s_score = 4, s_confidence = 0\<rparr>]"
    using getLatestTraitScores_means [of initial_chatState None None None None None None]
    by (simp add: two_scores_def)
  have mem: "\<lparr>s_trait = Awareness, s_score = 4, s_confidence = 0\<rparr>
               \<in> set (getLatestTraitScores ?cs)"
    by (simp add: ex)
  from getLatestTraitScores_means [of ?cs] mem
  have "s_score \<lparr>s_trait = Awareness, s_score = 4, s_confidence = 0\<rparr> =
          sum_list (map score_or_0 (scored Awareness two_scores))
            / real (length (scored Awareness two_scores))"
    and "s_confidence \<lparr>s_trait = Awareness, s_score = 4, s_confidence = 0\<rparr> =
          sum_list (map confidence_or_0 (scored Awareness two_scores))
            / real (length (scored Awareness two_scores))"
    by force+
  moreover from getLatestTraitScores_means [of ?cs]
  have "{t. \<exists>d\<in>set two_scores. trait d = t \<and> score d \<noteq> None} = {Awareness}"
    by (simp add: ex)
  ultimately show ?thesis using ex by simp
qed

text \<open>
  C7, as the claim states it, fails when a later response carries shorter arrays: in the
  session \<open>shrinking_session\<close> the first response carries three assessments of
  awareness and the second, most recent one carries one; three records of awareness
  stay materialized.
\<close>

theorem count_exceeds_latest_response:
  "existingCount (traitData (chatState (run shrinking_session initial_app))) Awareness = 3
   \<and> maxLength (updated_state one_assessment) Awareness = 1
   \<and> \<not> existingCount (traitData (chatState (run shrinking_session initial_app))) Awareness
         \<le> maxLength (updated_state one_assessment) Awareness"
  by code_simp

text \<open>
  C7, amended. In every state reached from the initial state, the number of materialized
  records of a trait is at most the length of the longest array of that trait among the
  chat responses delivered so far. One reconciliation leaves at most as many records of
  the trait as the larger of the count before it and the longest of the four arrays of
  its response, so the count stays within the most recent response whenever that
  response is not shorter than what is materialized. It only appends, and the records it
  appends for the trait are those of indices at or beyond the count already
  materialized and below the length of the longest array.
\<close>

theorem materialized_count_bounded:
  "existingCount (traitData (chatState (run evs initial_app))) t \<le> longest_seen t evs
   \<and> existingCount (traitData (chatState (reconcile i m ct d s))) t
       \<le> max (existingCount (traitData (chatState s)) t) (maxLength (updated_state d) t)
   \<and> traitData (chatState (reconcile i m ct d s)) =
       traitData (chatState s) @ extract_new (updated_state d) (traitData (chatState s)) ct
   \<and> map strip (filter (\<lambda>x. trait x = t)
        (extract_new (updated_state d) (traitData (chatState s)) ct)) =
       map (materialized (updated_state d) t)
         (new_indices (updated_state d) (traitData (chatState s)) t)
   \<and> (\<forall>j\<in>set (new_indices (updated_state d) (traitData (chatState s)) t).
         existingCount (traitData (chatState s)) t \<le> j \<and> j < maxLength (updated_state d) t)"
proof -
  have a: "existingCount (traitData (chatState (run evs initial_app))) t \<le> longest_seen t evs"
    using run_count_bound [OF closure_current_initial, of evs t]
    by (simp add: initial_app_def initial_chatState_def existingCount_def)
  have b: "existingCount (traitData (chatState (reconcile i m ct d s))) t
       \<le> max (existingCount (traitData (chatState s)) t) (maxLength (updated_state d) t)"
    unfolding traitData_reconcile by (rule count_after_extract)
  have e: "\<forall>j\<in>set (new_indices (updated_state d) (traitData (chatState s)) t).
         existingCount (traitData (chatState s)) t \<le> j \<and> j < maxLength (updated_state d) t"
    by (simp add: new_indices_def)
  from a b traitData_reconcile [of i m ct d s]
    extract_new_trait [of t "updated_state d" "traitData (chatState s)" ct] e
  show ?thesis by blast
qed

theorem materialized_count_bounded_witness:
  "existingCount (traitData (chatState (run shrinking_session initial_app))) Awareness \<le> 3
   \<and> existingCount (traitData (chatState (reconcile 200 201 202 three_assessments initial_app)))
        Awareness \<le> 3
   \<and> new_indices (updated_state three_assessments) (traitData (chatState initial_app))
        Awareness = [0, 1, 2]
   \<and> existingCount (traitData (chatState initial_app)) Awareness \<le> 2
   \<and> 2 < maxLength (updated_state three_assessments) Awareness"
proof -
  have l: "longest_seen Awareness shrinking_session = 3"
    by (simp add: shrinking_session_def fetch_outcome_def ok_def maxLength_def or_empty_def
          one_assessment_def three_assessments_def awareness_arrays_def)
  have m: "maxLength (updated_state three_assessments) Awareness = 3"
    by (simp add: maxLength_def or_empty_def three_assessments_def awareness_arrays_def)
  have z: "existingCount (traitData (chatState initial_app)) Awareness = 0"
    by (simp add: initial_app_def initial_chatState_def existingCount_def)
  have n: "new_indices (updated_state three_assessments) (traitData (chatState initial_app))
        Awareness = [0, 1, 2]"
    by code_simp
  from materialized_count_bounded
         [of shrinking_session Awareness 200 201 202 three_assessments initial_app]
  have a: "existingCount (traitData (chatState (run shrinking_session initial_app))) Awareness
             \<le> longest_seen Awareness shrinking_session"
    and b: "existingCount
              (traitData (chatState (reconcile 200 201 202 three_assessments initial_app)))
              Awareness
             \<le> max (existingCount (traitData (chatState initial_app)) Awareness)
                   (maxLength (updated_state three_assessments) Awareness)"
    and e: "\<forall>j\<in>set (new_indices (updated_state three_assessments)
                      (traitData (chatState initial_app)) Awareness).
              existingCount (traitData (chatState initial_app)) Awareness \<le> j
              \<and> j < maxLength (updated_state three_assessments) Awareness"
    by blast+
  from e have e': "existingCount (traitData (chatState initial_app)) Awareness \<le> 2
              \<and> 2 < maxLength (updated_state three_assessments) Awareness"
    unfolding n by simp
  from a have a': "existingCount (traitData (chatState (run shrinking_session initial_app)))
                     Awareness \<le> 3"
    by (simp only: l)
  from b have b': "existingCount
              (traitData (chatState (reconcile 200 201 202 three_assessments initial_app)))
              Awareness \<le> 3"
    by (simp only: m z max_0L)
  from a' b' n e' show ?thesis by blast
qed

text \<open>
  C8. When one of the four arrays of a trait is absent from a chat response that parsed,
  the handler runs its \<^verbatim>\<open>try\<close> block to the end, as for any parsed response, and the
  state it produces is the state it produces for the same response with that array
  present and empty, but for the backend state blob, which is the payload as delivered.
\<close>

theorem absent_array_is_empty_array:
  assumes "ok st"
  shows
    "handleSubmit_resolved c i m ct (Responded st (Parsed (with_scores t None d))) s =
       with_blob (updated_state (with_scores t None d))
         (handleSubmit_resolved c i m ct (Responded st (Parsed (with_scores t (Some []) d))) s)
     \<and> handleSubmit_resolved c i m ct (Responded st (Parsed (with_confidences t None d))) s =
       with_blob (updated_state (with_confidences t None d))
         (handleSubmit_resolved c i m ct
            (Responded st (Parsed (with_confidences t (Some []) d))) s)
     \<and> handleSubmit_resolved c i m ct (Responded st (Parsed (with_sentences t None d))) s =
       with_blob (updated_state (with_sentences t None d))
         (handleSubmit_resolved c i m ct
            (Responded st (Parsed (with_sentences t (Some []) d))) s)
     \<and> handleSubmit_resolved c i m ct (Responded st (Parsed (with_rationales t None d))) s =
       with_blob (updated_state (with_rationales t None d))
         (handleSubmit_resolved c i m ct
            (Responded st (Parsed (with_rationales t (Some []) d))) s)"
proof (intro conjI)
  show "handleSubmit_resolved c i m ct (Responded st (Parsed (with_scores t None d))) s =
       with_blob (updated_state (with_scores t None d))
         (handleSubmit_resolved c i m ct (Responded st (Parsed (with_scores t (Some []) d))) s)"
    unfolding handleSubmit_resolved_ok [OF assms]
    by (rule handleSubmit_then_same_arrays [OF same_arrays_scores])
       (simp_all add: with_scores_def)
  show "handleSubmit_resolved c i m ct (Responded st (Parsed (with_confidences t None d))) s =
       with_blob (updated_state (with_confidences t None d))
         (handleSubmit_resolved c i m ct
            (Responded st (Parsed (with_confidences t (Some []) d))) s)"
    unfolding handleSubmit_resolved_ok [OF assms]
    by (rule handleSubmit_then_same_arrays [OF same_arrays_confidences])
       (simp_all add: with_confidences_def)
  show "handleSubmit_resolved c i m ct (Responded st (Parsed (with_sentences t None d))) s =
       with_blob (updated_state (with_sentences t None d))
         (handleSubmit_resolved c i m ct
            (Responded st (Parsed (with_sentences t (Some []) d))) s)"
    unfolding handleSubmit_resolved_ok [OF assms]
    by (rule handleSubmit_then_same_arrays [OF same_arrays_sentences])
       (simp_all add: with_sentences_def)
  show "handleSubmit_resolved c i m ct (Responded st (Parsed (with_rationales t None d))) s =
       with_blob (updated_state (with_rationales t None d))
         (handleSubmit_resolved c i m ct
            (Responded st (Parsed (with_rationales t (Some []) d))) s)"
    unfolding handleSubmit_resolved_ok [OF assms]
    by (rule handleSubmit_then_same_arrays [OF same_arrays_rationales])
       (simp_all add: with_rationales_def)
qed

theorem absent_array_witness:
  "handleSubmit_resolved initial_chatState 200 201 202
     (Responded 200 (Parsed (with_sentences Awareness None one_assessment))) initial_app =
   with_blob (updated_state (with_sentences Awareness None one_assessment))
     (handleSubmit_resolved initial_chatState 200 201 202
        (Responded 200 (Parsed (with_sentences Awareness (Some []) one_assessment)))
        initial_app)
   \<and> sentences_field (updated_state (with_sentences Awareness None one_assessment)) Awareness
       = None"
proof -
  have "sentences_field (updated_state (with_sentences Awareness None one_assessment))
          Awareness = None"
    by (simp add: with_sentences_def)
  with absent_array_is_empty_array
         [OF ok_200, of initial_chatState 200 201 202 Awareness one_assessment initial_app]
  show ?thesis by blast
qed




text \<open>
  C10. The persona button is rendered exactly when the backend state blob is set, and
  it is disabled exactly when \<^verbatim>\<open>isGeneratingPersona\<close> is set or no assessment has a
  score; in every reachable state it is disabled while a persona call is pending. So a
  click reaches \<^verbatim>\<open>generatePersona\<close> only when the blob is set and some assessment has a
  score. Called without the blob, \<^verbatim>\<open>generatePersona\<close> changes nothing and issues an
  alert, no request; a request it issues carries the blob.
\<close>

theorem persona_needs_blob_and_score:
  "(personaButtonRendered s \<and> \<not> personaButtonDisabled s \<longrightarrow>
      backendState (chatState s) \<noteq> None
      \<and> (\<exists>d\<in>set (traitData (chatState s)). score d \<noteq> None)
      \<and> \<not> isGeneratingPersona s)
   \<and> (personaButtonRendered s \<longleftrightarrow> backendState (chatState s) \<noteq> None)
   \<and> (personaButtonDisabled s \<longleftrightarrow>
        isGeneratingPersona s \<or> (\<forall>d\<in>set (traitData (chatState s)). score d = None))
   \<and> (pendingPersona (run evs initial_app) \<longrightarrow> personaButtonDisabled (run evs initial_app))
   \<and> (backendState (chatState s) = None \<longrightarrow>
        generatePersona_call s =
          (s, Alert ''No assessment data available. Please have a conversation first.''))
   \<and> (\<forall>rq. snd (generatePersona_call s) = PostPersona rq \<longrightarrow>
        backendState (chatState s) = Some (pq_state rq))
   \<and> (\<forall>rq. snd (generatePersona_call s) \<noteq> PostChat rq)"
proof -
  have dis: "personaButtonDisabled s \<longleftrightarrow>
        isGeneratingPersona s \<or> (\<forall>d\<in>set (traitData (chatState s)). score d = None)"
    using no_summary_iff [of "chatState s"]
    by (simp add: personaButtonDisabled_def)
  have sync: "persona_in_sync (run evs initial_app)"
    by (rule persona_in_sync_run) (simp add: persona_in_sync_def initial_app_def)
  have pend: "pendingPersona (run evs initial_app) \<longrightarrow> personaButtonDisabled (run evs initial_app)"
    using sync by (simp add: persona_in_sync_def personaButtonDisabled_def)
  have call: "backendState (chatState s) = None \<longrightarrow>
        generatePersona_call s =
          (s, Alert ''No assessment data available. Please have a conversation first.'')"
    by (simp add: generatePersona_call_def)
  have post: "\<forall>rq. snd (generatePersona_call s) = PostPersona rq \<longrightarrow>
        backendState (chatState s) = Some (pq_state rq)"
    by (auto simp: generatePersona_call_def split: option.splits)
  have nochat: "\<forall>rq. snd (generatePersona_call s) \<noteq> PostChat rq"
    by (auto simp: generatePersona_call_def split: option.splits)
  from dis pend call post nochat show ?thesis
    by (simp add: personaButtonRendered_def)
qed

theorem persona_needs_blob_witness:
  "generatePersona_call initial_app =
     (initial_app, Alert ''No assessment data available. Please have a conversation first.'')
   \<and> \<not> personaButtonRendered initial_app
   \<and> personaButtonRendered (reconcile 200 201 202 one_assessment initial_app)
   \<and> \<not> personaButtonDisabled (reconcile 200 201 202 one_assessment initial_app)
   \<and> backendState (chatState (reconcile 200 201 202 one_assessment initial_app)) \<noteq> None
   \<and> pendingPersona (run persona_session initial_app)
   \<and> personaButtonDisabled (run persona_session initial_app)"
proof -
  let ?s = "reconcile 200 201 202 one_assessment initial_app"
  have pend: "pendingPersona (run persona_session initial_app)"
    by code_simp
  from persona_needs_blob_and_score [of initial_app persona_session] pend
  have dis: "personaButtonDisabled (run persona_session initial_app)"
    by blast
  have b0: "backendState (chatState initial_app) = None"
    by (simp add: initial_app_def initial_chatState_def)
  have b1: "backendState (chatState ?s) \<noteq> None"
    by (simp add: reconcile_then handleSubmit_then_def Let_def)
  have g: "\<not> isGeneratingPersona ?s"
    by (simp add: reconcile_then handleSubmit_then_def Let_def initial_app_def)
  have t: "traitData (chatState ?s) =
             [\<lparr>trait = Awareness, score = Some 3, confidence = Some 7,
               sentence = Some ''tracks spending'', rationale = Some ''mentions a budget'',
               timestamp = Some 202\<rparr>]"
    unfolding traitData_reconcile
    by (simp add: extraction_defs one_assessment_def awareness_arrays_def initial_app_def
          initial_chatState_def)
  from persona_needs_blob_and_score [of initial_app "[]"] b0
  have i: "generatePersona_call initial_app =
       (initial_app, Alert ''No assessment data available. Please have a conversation first.'')
     \<and> \<not> personaButtonRendered initial_app"
    by simp
  from persona_needs_blob_and_score [of ?s "[]"] b1 g t
  have "personaButtonRendered ?s \<and> \<not> personaButtonDisabled ?s"
    by simp
  with i b1 pend dis show ?thesis by simp
qed

end
